theory Spec2Isabelle
  imports Complex_Main
begin

section \<open>Data model\<close>

text \<open>
  The fund's tables, as the Django models of \<^verbatim>\<open>apps/users/models.py\<close>,
  \<^verbatim>\<open>apps/payments/models.py\<close> and \<^verbatim>\<open>apps/loans/models.py\<close> declare them.
  A \<^verbatim>\<open>DecimalField\<close> holds a Python \<^verbatim>\<open>Decimal\<close>; its value is a number, taken here
  as a real. Primary keys and foreign keys are natural numbers. Only the columns
  the assignment algorithm reads or writes are kept.
\<close>

type_synonym decimal = real

datatype LoanState = INITIAL | ACTIVE | NO_ONE

record User =
  u_id :: nat
  username :: string
  balance :: decimal
  is_main :: bool
  loan_request_amount :: decimal
  is_active :: bool

record Payment =
  p_id :: nat
  p_user_id :: nat
  p_amount :: decimal
  p_jalali_year :: nat
  p_jalali_month :: nat

record LoanPayment =
  lp_payment_id :: nat
  lp_loan_id :: nat
  lp_amount :: decimal

record Config =
  min_membership_fee :: decimal
  max_month_for_loan_payment :: nat
  min_amount_for_loan_payment :: decimal

text \<open>
  The audit trail of \<^verbatim>\<open>apps/loans/algorithm.py\<close>. The reason of an exclusion is one of
  the three strings the algorithm writes (the first one quotes the two amounts);
  the point of a participant is the string \<^verbatim>\<open>"unlimited"\<close> or \<^verbatim>\<open>str(score)\<close>.
\<close>

datatype Reason =
  RequestExceedsBalance decimal decimal
  | HasActiveLoan
  | OptedOut

datatype Point = Unlimited | PointOf decimal

record NotParticipatedEntry =
  np_user_id :: nat
  np_username :: string
  np_reason :: Reason

record ParticipatedEntry =
  pe_user_id :: nat
  pe_username :: string
  pe_point :: Point

record AssignmentLog =
  not_participated :: "NotParticipatedEntry list"
  participated :: "ParticipatedEntry list"
  selected :: "nat option"
  random_pool :: "nat list"

text \<open>
  The JSON document stored in \<^verbatim>\<open>Loan.log\<close>: the four keys of the audit trail, and the
  key \<^verbatim>\<open>note\<close> that only one branch writes.
\<close>

record LoanLog =
  json_not_participated :: "NotParticipatedEntry list"
  json_participated :: "ParticipatedEntry list"
  json_selected :: "nat option"
  json_random_pool :: "nat list"
  json_note :: "string option"

record Loan =
  l_id :: nat
  l_user_id :: "nat option"
  l_amount :: "decimal option"
  l_state :: LoanState
  l_jalali_year :: nat
  l_jalali_month :: nat
  l_created_at :: nat
  l_min_amount_for_each_payment :: "decimal option"
  l_log :: "LoanLog option"

record UserScore =
  us_user_id :: nat
  us_username :: string
  us_score :: "decimal option"
  us_loan_request_amount :: decimal

text \<open>
  The database: one list per table, in storage order, and the singleton row of
  \<^verbatim>\<open>Config\<close> (primary key 1), which may not exist yet.
\<close>

record DB =
  users :: "User list"
  payments :: "Payment list"
  loan_payments :: "LoanPayment list"
  loans :: "Loan list"
  config :: "Config option"

section \<open>Queries\<close>

text \<open>
  \<^verbatim>\<open>qs.order_by(...).first()\<close>: the first row of the ordered query set, none when
  it is empty. \<open>before a b\<close> says that row \<open>a\<close> sorts strictly before row \<open>b\<close>;
  rows that tie keep their storage order.
\<close>

fun order_first :: "('a \<Rightarrow> 'a \<Rightarrow> bool) \<Rightarrow> 'a list \<Rightarrow> 'a option" where
  "order_first before [] = None"
| "order_first before (x # xs) =
     (case order_first before xs of
        None \<Rightarrow> Some x
      | Some y \<Rightarrow> if before y x then Some y else Some x)"

text \<open>
  \<^verbatim>\<open>aggregate(total=Sum(column))["total"]\<close>: SQL's sum skips the null values and is
  null when no value is left. \<^verbatim>\<open>x or Decimal("0")\<close> replaces a null or zero \<open>x\<close>.
\<close>

definition Sum_aggregate :: "decimal option list \<Rightarrow> decimal option" where
  "Sum_aggregate col =
     (let vs = List.map_filter (\<lambda>v. v) col in
      if vs = [] then None else Some (sum_list vs))"

definition or_decimal :: "decimal option \<Rightarrow> decimal \<Rightarrow> decimal" where
  "or_decimal x d = (case x of None \<Rightarrow> d | Some v \<Rightarrow> if v = 0 then d else v)"

definition user_payments :: "DB \<Rightarrow> User \<Rightarrow> Payment list" where
  "user_payments db user = filter (\<lambda>p. p_user_id p = u_id user) (payments db)"

definition last_payment :: "DB \<Rightarrow> User \<Rightarrow> Payment option" where
  "last_payment db user =
     order_first
       (\<lambda>a b. p_jalali_year a > p_jalali_year b \<or>
              (p_jalali_year a = p_jalali_year b \<and> p_jalali_month a > p_jalali_month b))
       (user_payments db user)"

text \<open>\<^verbatim>\<open>LoanPayment.objects.filter(payment__user=user)\<close>: the join of the loan payments
  with their payment rows, kept when the payment is the user's.\<close>

definition user_loan_payments :: "DB \<Rightarrow> User \<Rightarrow> (LoanPayment \<times> Payment) list" where
  "user_loan_payments db user =
     [(lp, p). lp \<leftarrow> loan_payments db, p \<leftarrow> payments db,
               p_id p = lp_payment_id lp, p_user_id p = u_id user]"

definition total_user_loan_payments :: "DB \<Rightarrow> User \<Rightarrow> nat" where
  "total_user_loan_payments db user = length (user_loan_payments db user)"

definition user_active_loans :: "DB \<Rightarrow> User \<Rightarrow> Loan list" where
  "user_active_loans db user =
     filter (\<lambda>l. l_user_id l = Some (u_id user) \<and> l_state l = ACTIVE) (loans db)"

definition total_loan_amount :: "DB \<Rightarrow> User \<Rightarrow> decimal" where
  "total_loan_amount db user =
     or_decimal (Sum_aggregate (map l_amount (user_active_loans db user))) 0"

definition total_loan_user_get :: "DB \<Rightarrow> User \<Rightarrow> nat" where
  "total_loan_user_get db user = length (user_active_loans db user)"

definition previous_loan :: "DB \<Rightarrow> User \<Rightarrow> Loan option" where
  "previous_loan db user =
     order_first (\<lambda>a b. l_created_at a > l_created_at b) (user_active_loans db user)"

definition total_payments_count :: "DB \<Rightarrow> User \<Rightarrow> nat" where
  "total_payments_count db user = length (user_payments db user)"

definition months_with_loan_payment :: "DB \<Rightarrow> User \<Rightarrow> nat" where
  "months_with_loan_payment db user =
     length (remdups (map (\<lambda>(lp, p). (p_jalali_year p, p_jalali_month p))
                          (user_loan_payments db user)))"

text \<open>\<^verbatim>\<open>max(0, total_payments_count - months_with_loan_payment)\<close>, on Python's integers.\<close>

definition total_month_no_loan :: "DB \<Rightarrow> User \<Rightarrow> nat" where
  "total_month_no_loan db user =
     nat (max 0 (int (total_payments_count db user) - int (months_with_loan_payment db user)))"

section \<open>The score\<close>

text \<open>
  \<^verbatim>\<open>compute_user_score\<close> takes its logarithms as
  \<^verbatim>\<open>Decimal(str(math.log(float(x))))\<close>: the binary floating-point logarithm of the C
  library, printed and parsed back. Its digits are not modelled; the function is a
  parameter \<open>lg\<close> of the score, and every closed statement below takes the real
  natural logarithm \<open>ln\<close> for it. The decimal parsed from the printed float has the
  float's sign, so the source's two tests, \<^verbatim>\<open>log_val > 0\<close> on the float and
  \<^verbatim>\<open><= 0\<close> on the decimal, are both tests of \<open>lg x\<close>. Products and the quotient of
  decimals are the exact ones (Python rounds each to the 28 significant digits of
  the decimal context, which changes no sign).
\<close>

definition log_previous_loan :: "(decimal \<Rightarrow> decimal) \<Rightarrow> DB \<Rightarrow> User \<Rightarrow> decimal" where
  "log_previous_loan lg db user =
     (case previous_loan db user of
        None \<Rightarrow> 0
      | Some l \<Rightarrow>
          (case l_amount l of
             None \<Rightarrow> 0
           | Some a \<Rightarrow> if a \<le> 0 then 0 else if lg a > 0 then lg a else 0))"

definition log_balance :: "(decimal \<Rightarrow> decimal) \<Rightarrow> User \<Rightarrow> decimal" where
  "log_balance lg user =
     (if balance user \<le> 0 then 0
      else if lg (balance user) > 0 then lg (balance user) else 0)"

definition numerator :: "(decimal \<Rightarrow> decimal) \<Rightarrow> DB \<Rightarrow> User \<Rightarrow> decimal" where
  "numerator lg db user =
     log_previous_loan lg db user * log_balance lg user * of_nat (total_month_no_loan db user)"

definition denominator :: "(decimal \<Rightarrow> decimal) \<Rightarrow> DB \<Rightarrow> User \<Rightarrow> decimal \<Rightarrow> decimal" where
  "denominator lg db user total_payment_for_last_month =
     total_payment_for_last_month
     * of_nat (total_user_loan_payments db user)
     * lg (total_loan_amount db user)
     * of_nat (total_loan_user_get db user)
     * lg (loan_request_amount user)"

text \<open>The score; \<open>None\<close> is the source's \<^verbatim>\<open>None\<close>, the unlimited score.\<close>

definition compute_user_score :: "(decimal \<Rightarrow> decimal) \<Rightarrow> DB \<Rightarrow> User \<Rightarrow> decimal option" where
  "compute_user_score lg db user =
     (case last_payment db user of
        None \<Rightarrow> None
      | Some lastp \<Rightarrow>
          if p_amount lastp \<le> 0 then None
          else if total_user_loan_payments db user = 0 then None
          else if total_loan_amount db user \<le> 0 then None
          else if lg (total_loan_amount db user) \<le> 0 then None
          else if total_loan_user_get db user = 0 then None
          else if loan_request_amount user \<le> 0 then None
          else if lg (loan_request_amount user) \<le> 0 then None
          else if denominator lg db user (p_amount lastp) \<le> 0 then None
          else if numerator lg db user \<le> 0 then Some 0
          else Some (numerator lg db user / denominator lg db user (p_amount lastp)))"

section \<open>The assignment\<close>

text \<open>
  What \<^verbatim>\<open>run_loan_assignment\<close> can raise: the \<^verbatim>\<open>ValueError\<close> of the payment check,
  with the period and the user names its message lists; the \<^verbatim>\<open>IntegrityError\<close> of
  the database when a unique constraint fails; and the errors of \<^verbatim>\<open>max\<close>,
  \<^verbatim>\<open>random.choice\<close> and \<^verbatim>\<open>next\<close> on an empty sequence.
\<close>

datatype error =
  ValueError_unpaid nat nat "string list"
  | IntegrityError
  | ValueError_max
  | IndexError
  | StopIteration

text \<open>
  What the run takes from outside the database: the clock that fills
  \<^verbatim>\<open>created_at\<close>, and the number the random generator draws.
\<close>

record Env =
  now :: nat
  draw :: nat

text \<open>\<^verbatim>\<open>Config.get_config()\<close>: \<^verbatim>\<open>get_or_create(pk=1)\<close>, which writes the row with the
  fields' defaults when it does not exist.\<close>

definition default_Config :: Config where
  "default_Config =
     \<lparr>min_membership_fee = 20, max_month_for_loan_payment = 24,
      min_amount_for_loan_payment = 20\<rparr>"

definition get_config :: "DB \<Rightarrow> DB \<times> Config" where
  "get_config db =
     (case config db of
        Some c \<Rightarrow> (db, c)
      | None \<Rightarrow> (db\<lparr>config := Some default_Config\<rparr>, default_Config))"

text \<open>
  \<^verbatim>\<open>Loan.objects.create(...)\<close> inside \<^verbatim>\<open>transaction.atomic()\<close>. The table is
  \<^verbatim>\<open>unique_together\<close> on the period: the insert fails as a whole when a row of the
  period exists. The primary key is a new identifier (\<^verbatim>\<open>uuid4\<close> in the source).
\<close>

definition new_loan_id :: "Loan list \<Rightarrow> nat" where
  "new_loan_id ls = Suc (fold max (map l_id ls) 0)"

definition period_taken :: "DB \<Rightarrow> nat \<Rightarrow> nat \<Rightarrow> bool" where
  "period_taken db jalali_year jalali_month =
     (\<exists>l \<in> set (loans db). l_jalali_year l = jalali_year \<and> l_jalali_month l = jalali_month)"

definition Loan_objects_create :: "Env \<Rightarrow> DB \<Rightarrow> Loan \<Rightarrow> DB \<times> (error + Loan)" where
  "Loan_objects_create env db kwargs =
     (if period_taken db (l_jalali_year kwargs) (l_jalali_month kwargs)
      then (db, Inl IntegrityError)
      else
        let loan = kwargs\<lparr>l_id := new_loan_id (loans db), l_created_at := now env\<rparr>
        in (db\<lparr>loans := loans db @ [loan]\<rparr>, Inr loan))"

text \<open>The keyword arguments of the two kinds of \<^verbatim>\<open>create\<close> call; a column that is
  not given keeps its default (null) and the key and the clock are filled by the insert.\<close>

definition no_one_fields :: "nat \<Rightarrow> nat \<Rightarrow> LoanLog \<Rightarrow> Loan" where
  "no_one_fields jalali_year jalali_month doc =
     \<lparr>l_id = 0, l_user_id = None, l_amount = None, l_state = NO_ONE,
      l_jalali_year = jalali_year, l_jalali_month = jalali_month, l_created_at = 0,
      l_min_amount_for_each_payment = None, l_log = Some doc\<rparr>"

definition active_fields ::
  "User \<Rightarrow> decimal \<Rightarrow> nat \<Rightarrow> nat \<Rightarrow> decimal \<Rightarrow> LoanLog \<Rightarrow> Loan" where
  "active_fields winner_user amount jalali_year jalali_month min_amount doc =
     \<lparr>l_id = 0, l_user_id = Some (u_id winner_user), l_amount = Some amount,
      l_state = ACTIVE, l_jalali_year = jalali_year, l_jalali_month = jalali_month,
      l_created_at = 0, l_min_amount_for_each_payment = Some min_amount,
      l_log = Some doc\<rparr>"

definition all_users :: "DB \<Rightarrow> User list" where
  "all_users db = filter is_active (users db)"

definition paid_user_ids :: "DB \<Rightarrow> nat \<Rightarrow> nat \<Rightarrow> nat set" where
  "paid_user_ids db jalali_year jalali_month =
     set (map p_user_id
            (filter (\<lambda>p. p_jalali_year p = jalali_year \<and> p_jalali_month p = jalali_month)
                    (payments db)))"

definition unpaid_users :: "DB \<Rightarrow> nat \<Rightarrow> nat \<Rightarrow> User list" where
  "unpaid_users db jalali_year jalali_month =
     filter (\<lambda>u. u_id u \<notin> paid_user_ids db jalali_year jalali_month) (all_users db)"

definition saghat_balance :: "DB \<Rightarrow> decimal" where
  "saghat_balance db =
     or_decimal (Sum_aggregate (map (\<lambda>u. Some (balance u)) (filter is_active (users db)))) 0"

definition has_active_loan :: "DB \<Rightarrow> User \<Rightarrow> bool" where
  "has_active_loan db user =
     (filter (\<lambda>l. l_user_id l = Some (u_id user) \<and> l_state l = ACTIVE) (loans db) \<noteq> [])"

definition empty_log :: AssignmentLog where
  "empty_log = \<lparr>not_participated = [], participated = [], selected = None, random_pool = []\<rparr>"

text \<open>The eligibility loop: each \<^verbatim>\<open>continue\<close> is a recursive call that skips the
  rest of the body.\<close>

fun determine_eligibility ::
  "DB \<Rightarrow> User list \<Rightarrow> AssignmentLog \<times> User list \<Rightarrow> AssignmentLog \<times> User list" where
  "determine_eligibility db [] (alog, eligible_users) = (alog, eligible_users)"
| "determine_eligibility db (user # rest) (alog, eligible_users) =
     (if \<not> is_main user \<and> loan_request_amount user > balance user then
        determine_eligibility db rest
          (alog\<lparr>not_participated := not_participated alog @
             [\<lparr>np_user_id = u_id user, np_username = username user,
               np_reason = RequestExceedsBalance (loan_request_amount user) (balance user)\<rparr>]\<rparr>,
           eligible_users)
      else if has_active_loan db user then
        determine_eligibility db rest
          (alog\<lparr>not_participated := not_participated alog @
             [\<lparr>np_user_id = u_id user, np_username = username user,
               np_reason = HasActiveLoan\<rparr>]\<rparr>,
           eligible_users)
      else if loan_request_amount user \<le> 0 then
        determine_eligibility db rest
          (alog\<lparr>not_participated := not_participated alog @
             [\<lparr>np_user_id = u_id user, np_username = username user,
               np_reason = OptedOut\<rparr>]\<rparr>,
           eligible_users)
      else determine_eligibility db rest (alog, eligible_users @ [user]))"

text \<open>The scoring loop.\<close>

fun score_users ::
  "(decimal \<Rightarrow> decimal) \<Rightarrow> DB \<Rightarrow> User list \<Rightarrow> AssignmentLog \<times> UserScore list
     \<Rightarrow> AssignmentLog \<times> UserScore list" where
  "score_users lg db [] (alog, user_scores) = (alog, user_scores)"
| "score_users lg db (user # rest) (alog, user_scores) =
     (let score = compute_user_score lg db user;
          score_str = (case score of None \<Rightarrow> Unlimited | Some s \<Rightarrow> PointOf s)
      in score_users lg db rest
           (alog\<lparr>participated := participated alog @
              [\<lparr>pe_user_id = u_id user, pe_username = username user, pe_point = score_str\<rparr>]\<rparr>,
            user_scores @
              [\<lparr>us_user_id = u_id user, us_username = username user, us_score = score,
                us_loan_request_amount = loan_request_amount user\<rparr>]))"

definition fundable :: "decimal \<Rightarrow> UserScore list \<Rightarrow> UserScore list" where
  "fundable balance_of_fund user_scores =
     filter (\<lambda>us. us_loan_request_amount us \<le> balance_of_fund) user_scores"

text \<open>\<^verbatim>\<open>max\<close> of a sequence: the first item that no later item exceeds; an error on
  the empty sequence.\<close>

fun py_max :: "decimal list \<Rightarrow> error + decimal" where
  "py_max [] = Inl ValueError_max"
| "py_max (x # xs) = Inr (fold (\<lambda>item max_item. if item > max_item then item else max_item) xs x)"

definition max_score_group :: "UserScore list \<Rightarrow> error + UserScore list" where
  "max_score_group fundable_scores =
     (let has_unlimited = (\<exists>us \<in> set fundable_scores. us_score us = None)
      in if has_unlimited then Inr (filter (\<lambda>us. us_score us = None) fundable_scores)
         else
           (case py_max (map (\<lambda>us. the (us_score us)) fundable_scores) of
              Inl e \<Rightarrow> Inl e
            | Inr max_score \<Rightarrow>
                Inr (filter (\<lambda>us. us_score us = Some max_score) fundable_scores)))"

text \<open>\<^verbatim>\<open>random.choice(seq)\<close>: the item at a drawn index below the length.\<close>

definition random_choice :: "Env \<Rightarrow> 'a list \<Rightarrow> error + 'a" where
  "random_choice env seq =
     (if seq = [] then Inl IndexError else Inr (seq ! (draw env mod length seq)))"

text \<open>\<^verbatim>\<open>next(u for u in eligible_users if u.id == user_id)\<close>.\<close>

definition next_user :: "User list \<Rightarrow> nat \<Rightarrow> error + User" where
  "next_user eligible_users user_id =
     (case find (\<lambda>u. u_id u = user_id) eligible_users of
        None \<Rightarrow> Inl StopIteration
      | Some u \<Rightarrow> Inr u)"

definition log_json :: "AssignmentLog \<Rightarrow> string option \<Rightarrow> LoanLog" where
  "log_json alog note =
     \<lparr>json_not_participated = not_participated alog, json_participated = participated alog,
      json_selected = selected alog, json_random_pool = random_pool alog, json_note = note\<rparr>"

definition run_loan_assignment ::
  "(decimal \<Rightarrow> decimal) \<Rightarrow> Env \<Rightarrow> DB \<Rightarrow> nat \<Rightarrow> nat \<Rightarrow> DB \<times> (error + Loan)" where
  "run_loan_assignment lg env db0 jalali_year jalali_month =
     (let (db, config) = get_config db0 in
      if unpaid_users db jalali_year jalali_month \<noteq> [] then
        (db, Inl (ValueError_unpaid jalali_year jalali_month
                    (map username (unpaid_users db jalali_year jalali_month))))
      else
        let (alog, eligible_users) = determine_eligibility db (all_users db) (empty_log, []) in
        if eligible_users = [] then
          Loan_objects_create env db
            (no_one_fields jalali_year jalali_month
               \<lparr>json_not_participated = not_participated alog, json_participated = [],
                json_selected = None, json_random_pool = [], json_note = None\<rparr>)
        else
          let (alog, user_scores) = score_users lg db eligible_users (alog, []);
              fundable_scores = fundable (saghat_balance db) user_scores
          in
          if fundable_scores = [] then
            Loan_objects_create env db
              (no_one_fields jalali_year jalali_month
                 \<lparr>json_not_participated = not_participated alog,
                  json_participated = participated alog,
                  json_selected = None, json_random_pool = [],
                  json_note = Some ''No user's loan_request_amount fits within saghat_balance''\<rparr>)
          else
            (case max_score_group fundable_scores of
               Inl e \<Rightarrow> (db, Inl e)
             | Inr score_group \<Rightarrow>
                 let alog = alog\<lparr>random_pool := map us_user_id score_group\<rparr> in
                 (case random_choice env score_group of
                    Inl e \<Rightarrow> (db, Inl e)
                  | Inr winner_score \<Rightarrow>
                      let alog = alog\<lparr>selected := Some (us_user_id winner_score)\<rparr> in
                      (case next_user eligible_users (us_user_id winner_score) of
                         Inl e \<Rightarrow> (db, Inl e)
                       | Inr winner_user \<Rightarrow>
                           Loan_objects_create env db
                             (active_fields winner_user (us_loan_request_amount winner_score)
                                jalali_year jalali_month
                                (min_amount_for_loan_payment config)
                                (log_json alog None))))))"

section \<open>Names for the statements\<close>

text \<open>The configuration a run works with: the stored row, or the defaults that
  \<^verbatim>\<open>get_or_create\<close> writes.\<close>

definition the_config :: "DB \<Rightarrow> Config" where
  "the_config db = (case config db of Some c \<Rightarrow> c | None \<Rightarrow> default_Config)"

text \<open>The values of the local variables of \<^verbatim>\<open>run_loan_assignment\<close> after each of its
  loops and filters.\<close>

definition eligibility :: "DB \<Rightarrow> AssignmentLog \<times> User list" where
  "eligibility db = determine_eligibility db (all_users db) (empty_log, [])"

definition scoring :: "(decimal \<Rightarrow> decimal) \<Rightarrow> DB \<Rightarrow> AssignmentLog \<times> UserScore list" where
  "scoring lg db = score_users lg db (snd (eligibility db)) (fst (eligibility db), [])"

definition fundable_scores :: "(decimal \<Rightarrow> decimal) \<Rightarrow> DB \<Rightarrow> UserScore list" where
  "fundable_scores lg db = fundable (saghat_balance db) (snd (scoring lg db))"

text \<open>The entries the two loops append for a user.\<close>

definition participated_entry :: "(decimal \<Rightarrow> decimal) \<Rightarrow> DB \<Rightarrow> User \<Rightarrow> ParticipatedEntry" where
  "participated_entry lg db u =
     \<lparr>pe_user_id = u_id u, pe_username = username u,
      pe_point = (case compute_user_score lg db u of None \<Rightarrow> Unlimited | Some s \<Rightarrow> PointOf s)\<rparr>"

definition user_score :: "(decimal \<Rightarrow> decimal) \<Rightarrow> DB \<Rightarrow> User \<Rightarrow> UserScore" where
  "user_score lg db u =
     \<lparr>us_user_id = u_id u, us_username = username u, us_score = compute_user_score lg db u,
      us_loan_request_amount = loan_request_amount u\<rparr>"

text \<open>
  The specification's eligibility filter, in its words: the three conditions in
  their order, the first one that fails giving the reason. It is compared with the
  loop of the source below.
\<close>

definition exclusion_reason :: "DB \<Rightarrow> User \<Rightarrow> Reason option" where
  "exclusion_reason db u =
     (if \<not> is_main u \<and> loan_request_amount u > balance u
        then Some (RequestExceedsBalance (loan_request_amount u) (balance u))
      else if has_active_loan db u then Some HasActiveLoan
      else if loan_request_amount u \<le> 0 then Some OptedOut
      else None)"

definition not_participated_entry :: "DB \<Rightarrow> User \<Rightarrow> NotParticipatedEntry" where
  "not_participated_entry db u =
     \<lparr>np_user_id = u_id u, np_username = username u, np_reason = the (exclusion_reason db u)\<rparr>"

text \<open>
  The specification's winner group, in its words: the candidates with the unlimited
  score when there is one, otherwise the candidates whose score is the maximum.
\<close>

definition winner_group :: "UserScore list \<Rightarrow> UserScore list" where
  "winner_group fs =
     (if \<exists>us \<in> set fs. us_score us = None then filter (\<lambda>us. us_score us = None) fs
      else filter (\<lambda>us. us_score us = Some (Max ((\<lambda>v. the (us_score v)) ` set fs))) fs)"

text \<open>The candidate the draw picks from the winner group.\<close>

definition winner_score :: "(decimal \<Rightarrow> decimal) \<Rightarrow> Env \<Rightarrow> DB \<Rightarrow> UserScore" where
  "winner_score lg env db =
     winner_group (fundable_scores lg db)
       ! (draw env mod length (winner_group (fundable_scores lg db)))"

definition period_of :: "Loan \<Rightarrow> nat \<times> nat" where
  "period_of l = (l_jalali_year l, l_jalali_month l)"

text \<open>The row an insert stores: the keyword arguments with the key and the clock.\<close>

definition created_row :: "Env \<Rightarrow> DB \<Rightarrow> Loan \<Rightarrow> Loan" where
  "created_row env db kwargs = kwargs\<lparr>l_id := new_loan_id (loans db), l_created_at := now env\<rparr>"

section \<open>The member's history in the words of the specification\<close>

text \<open>
  The facts that the specification's score reads, written over the tables
  themselves and not over the queries of the source; they are compared with the
  queries below. A payment is not later than another when its period is the same
  or earlier. The most recent payment of a member is the first row of the member,
  in storage order, that no row of the member is later than.
\<close>

definition not_later :: "Payment \<Rightarrow> Payment \<Rightarrow> bool" where
  "not_later q p \<longleftrightarrow>
     p_jalali_year q < p_jalali_year p
     \<or> (p_jalali_year q = p_jalali_year p \<and> p_jalali_month q \<le> p_jalali_month p)"

definition most_recent_payment :: "DB \<Rightarrow> User \<Rightarrow> Payment option" where
  "most_recent_payment db u =
     find (\<lambda>p. p_user_id p = u_id u
              \<and> (\<forall>q \<in> set (payments db). p_user_id q = u_id u \<longrightarrow> not_later q p))
          (payments db)"

text \<open>The loan-repayment portions attributed to a member: the pairs of a portion and
  the payment it belongs to, that payment being the member's.\<close>

definition member_portions :: "DB \<Rightarrow> User \<Rightarrow> (LoanPayment \<times> Payment) list" where
  "member_portions db u =
     filter (\<lambda>(lp, p). p_id p = lp_payment_id lp \<and> p_user_id p = u_id u)
            (List.product (loan_payments db) (payments db))"

text \<open>The member's ACTIVE allocations, their total (a missing amount counts 0), and
  the most recent of them: the first one, in storage order, that none of them was
  created after.\<close>

definition active_allocations :: "DB \<Rightarrow> User \<Rightarrow> Loan list" where
  "active_allocations db u =
     filter (\<lambda>l. l_state l = ACTIVE \<and> l_user_id l = Some (u_id u)) (loans db)"

definition amount_or_zero :: "Loan \<Rightarrow> decimal" where
  "amount_or_zero l = (case l_amount l of None \<Rightarrow> 0 | Some a \<Rightarrow> a)"

definition active_total :: "DB \<Rightarrow> User \<Rightarrow> decimal" where
  "active_total db u = sum_list (map amount_or_zero (active_allocations db u))"

definition most_recent_allocation :: "DB \<Rightarrow> User \<Rightarrow> Loan option" where
  "most_recent_allocation db u =
     find (\<lambda>l. l_state l = ACTIVE \<and> l_user_id l = Some (u_id u)
              \<and> (\<forall>k \<in> set (loans db).
                    l_state k = ACTIVE \<and> l_user_id k = Some (u_id u)
                    \<longrightarrow> l_created_at k \<le> l_created_at l))
          (loans db)"

text \<open>A logarithm factor of the numerator: 0 when the amount or its logarithm is not
  positive.\<close>

definition clamped_log :: "(decimal \<Rightarrow> decimal) \<Rightarrow> decimal \<Rightarrow> decimal" where
  "clamped_log lg x = (if x \<le> 0 \<or> lg x \<le> 0 then 0 else lg x)"

text \<open>The periods in which the member repaid a portion, and the number of the
  member's payments less the number of these periods, not below 0.\<close>

definition repaid_periods :: "DB \<Rightarrow> User \<Rightarrow> (nat \<times> nat) set" where
  "repaid_periods db u =
     (\<lambda>(lp, p). (p_jalali_year p, p_jalali_month p)) ` set (member_portions db u)"

definition unrepaid_months :: "DB \<Rightarrow> User \<Rightarrow> nat" where
  "unrepaid_months db u =
     length (filter (\<lambda>p. p_user_id p = u_id u) (payments db)) - card (repaid_periods db u)"

text \<open>The two products of the specification.\<close>

definition numerator_product :: "(decimal \<Rightarrow> decimal) \<Rightarrow> DB \<Rightarrow> User \<Rightarrow> decimal" where
  "numerator_product lg db u =
     clamped_log lg (case most_recent_allocation db u of None \<Rightarrow> 0 | Some l \<Rightarrow> amount_or_zero l)
     * clamped_log lg (balance u)
     * of_nat (unrepaid_months db u)"

definition denominator_product :: "(decimal \<Rightarrow> decimal) \<Rightarrow> DB \<Rightarrow> User \<Rightarrow> decimal" where
  "denominator_product lg db u =
     (case most_recent_payment db u of None \<Rightarrow> 0 | Some p \<Rightarrow> p_amount p)
     * of_nat (length (member_portions db u))
     * lg (active_total db u)
     * of_nat (length (active_allocations db u))
     * lg (loan_request_amount u)"

section \<open>Conversion to floating point\<close>

text \<open>
  \<^verbatim>\<open>float(x)\<close> of a Decimal: the binary64 number nearest to \<open>x\<close> (a significand of 53
  bits), a tie going to the even significand. The range of the exponent is not
  modelled: an amount has at most 12 integer and 8 fractional digits, far inside
  it. \<open>float_log\<close> is the logarithm of the converted amount, as
  \<^verbatim>\<open>math.log(float(x))\<close> takes it; the rounding of the logarithm itself and its
  printing by \<^verbatim>\<open>str\<close> are left out, both being functions of the converted amount.
\<close>

definition round_half_even :: "real \<Rightarrow> int" where
  "round_half_even x =
     (if x - of_int \<lfloor>x\<rfloor> < 1 / 2 then \<lfloor>x\<rfloor>
      else if 1 / 2 < x - of_int \<lfloor>x\<rfloor> then \<lfloor>x\<rfloor> + 1
      else if even \<lfloor>x\<rfloor> then \<lfloor>x\<rfloor> else \<lfloor>x\<rfloor> + 1)"

definition pow2 :: "int \<Rightarrow> real" where
  "pow2 e = (if 0 \<le> e then 2 ^ nat e else 1 / 2 ^ nat (- e))"

definition float_of :: "real \<Rightarrow> real" where
  "float_of x =
     (if x = 0 then 0
      else let e = \<lfloor>log 2 \<bar>x\<bar>\<rfloor> - 52
           in of_int (round_half_even (x / pow2 e)) * pow2 e)"

definition float_log :: "decimal \<Rightarrow> decimal" where
  "float_log x = ln (float_of x)"

section \<open>Example states\<close>

text \<open>
  The member of the test helper \<^verbatim>\<open>_setup_full_user\<close>: a payment in 1403/1, an active
  loan of 200, and a loan payment with its payment in 1403/2.
\<close>

definition full_member :: User where
  "full_member =
     \<lparr>u_id = 1, username = ''qualified'', balance = 500, is_main = False,
      loan_request_amount = 100, is_active = True\<rparr>"

definition db_full :: DB where
  "db_full =
     \<lparr>users = [full_member],
      payments =
        [\<lparr>p_id = 1, p_user_id = 1, p_amount = 20, p_jalali_year = 1403, p_jalali_month = 1\<rparr>,
         \<lparr>p_id = 2, p_user_id = 1, p_amount = 20, p_jalali_year = 1403, p_jalali_month = 2\<rparr>],
      loan_payments = [\<lparr>lp_payment_id = 2, lp_loan_id = 1, lp_amount = 20\<rparr>],
      loans =
        [\<lparr>l_id = 1, l_user_id = Some 1, l_amount = Some 200, l_state = ACTIVE,
          l_jalali_year = 1402, l_jalali_month = 1, l_created_at = 5,
          l_min_amount_for_each_payment = Some 20, l_log = None\<rparr>],
      config = Some default_Config\<rparr>"

text \<open>A member without any history.\<close>

definition nohistory :: User where
  "nohistory =
     \<lparr>u_id = 2, username = ''nohistory'', balance = 100, is_main = False,
      loan_request_amount = 50, is_active = True\<rparr>"

text \<open>The same member after one more payment, of an earlier month: the latest payment
  and the loans are as before, and one more month was paid without a loan payment.\<close>

definition db_full_more :: DB where
  "db_full_more =
     db_full\<lparr>payments := payments db_full @
        [\<lparr>p_id = 3, p_user_id = 1, p_amount = 20, p_jalali_year = 1402, p_jalali_month = 12\<rparr>]\<rparr>"

text \<open>
  The states of the tests of \<^verbatim>\<open>run_loan_assignment\<close>: two members without history who
  both paid for 1403/1; three members who paid for 1403/3 and are each excluded for
  another reason; a main member whose request of 11 exceeds the fund's balance of 10;
  a member who did not pay, in a database whose configuration row does not exist
  yet; and a fund whose only member is inactive.
\<close>

definition env_one :: Env where
  "env_one = \<lparr>now = 7, draw = 1\<rparr>"

definition db_two :: DB where
  "db_two =
     \<lparr>users =
        [\<lparr>u_id = 1, username = ''unlimited1'', balance = 300, is_main = False,
          loan_request_amount = 100, is_active = True\<rparr>,
         \<lparr>u_id = 2, username = ''unlimited2'', balance = 300, is_main = False,
          loan_request_amount = 100, is_active = True\<rparr>],
      payments =
        [\<lparr>p_id = 1, p_user_id = 1, p_amount = 20, p_jalali_year = 1403, p_jalali_month = 1\<rparr>,
         \<lparr>p_id = 2, p_user_id = 2, p_amount = 20, p_jalali_year = 1403, p_jalali_month = 1\<rparr>],
      loan_payments = [],
      loans = [],
      config = Some default_Config\<rparr>"

definition db_excluded :: DB where
  "db_excluded =
     \<lparr>users =
        [\<lparr>u_id = 1, username = ''activeloanuser'', balance = 200, is_main = False,
          loan_request_amount = 100, is_active = True\<rparr>,
         \<lparr>u_id = 2, username = ''optedout'', balance = 200, is_main = False,
          loan_request_amount = 0, is_active = True\<rparr>,
         \<lparr>u_id = 3, username = ''overrequest'', balance = 50, is_main = False,
          loan_request_amount = 200, is_active = True\<rparr>],
      payments =
        [\<lparr>p_id = 1, p_user_id = 1, p_amount = 20, p_jalali_year = 1403, p_jalali_month = 3\<rparr>,
         \<lparr>p_id = 2, p_user_id = 2, p_amount = 20, p_jalali_year = 1403, p_jalali_month = 3\<rparr>,
         \<lparr>p_id = 3, p_user_id = 3, p_amount = 20, p_jalali_year = 1403, p_jalali_month = 3\<rparr>],
      loan_payments = [],
      loans =
        [\<lparr>l_id = 1, l_user_id = Some 1, l_amount = Some 100, l_state = ACTIVE,
          l_jalali_year = 1402, l_jalali_month = 1, l_created_at = 5,
          l_min_amount_for_each_payment = Some 20, l_log = None\<rparr>],
      config = Some default_Config\<rparr>"

definition db_toobig :: DB where
  "db_toobig =
     \<lparr>users =
        [\<lparr>u_id = 1, username = ''toobig'', balance = 10, is_main = True,
          loan_request_amount = 11, is_active = True\<rparr>],
      payments =
        [\<lparr>p_id = 1, p_user_id = 1, p_amount = 20, p_jalali_year = 1403, p_jalali_month = 7\<rparr>],
      loan_payments = [],
      loans = [],
      config = Some default_Config\<rparr>"

definition db_unpaid :: DB where
  "db_unpaid =
     \<lparr>users =
        [\<lparr>u_id = 1, username = ''unpaid'', balance = 100, is_main = False,
          loan_request_amount = 50, is_active = True\<rparr>],
      payments = [], loan_payments = [], loans = [], config = None\<rparr>"

definition db_inactive :: DB where
  "db_inactive =
     \<lparr>users =
        [\<lparr>u_id = 1, username = ''inactive'', balance = 300, is_main = False,
          loan_request_amount = 100, is_active = False\<rparr>],
      payments = [], loan_payments = [], loans = [], config = Some default_Config\<rparr>"

text \<open>The loan that the run for 1403/1 creates in \<open>db_two\<close> when the draw picks the
  second candidate.\<close>

definition loan_two :: Loan where
  "loan_two =
     \<lparr>l_id = 1, l_user_id = Some 2, l_amount = Some 100, l_state = ACTIVE,
      l_jalali_year = 1403, l_jalali_month = 1, l_created_at = 7,
      l_min_amount_for_each_payment = Some 20,
      l_log = Some
        \<lparr>json_not_participated = [],
         json_participated =
           [\<lparr>pe_user_id = 1, pe_username = ''unlimited1'', pe_point = Unlimited\<rparr>,
            \<lparr>pe_user_id = 2, pe_username = ''unlimited2'', pe_point = Unlimited\<rparr>],
         json_selected = Some 2, json_random_pool = [1, 2], json_note = None\<rparr>\<rparr>"

text \<open>
  A fund with three members and interleaved rows. Anna's payments are stored out of
  period order, the latest (1403/3, amount 30) between two of amount 0; she has one
  ACTIVE loan of 100, an INITIAL one of 1000 and one repayment portion. Bob has one
  payment, one ACTIVE loan and one portion, in the month of his only payment. Cyrus
  has payments and a portion, but his only loan is INITIAL.
\<close>

definition anna :: User where
  "anna = \<lparr>u_id = 1, username = ''anna'', balance = 100, is_main = True,
           loan_request_amount = 100, is_active = True\<rparr>"

definition bob :: User where
  "bob = \<lparr>u_id = 2, username = ''bob'', balance = 300, is_main = True,
          loan_request_amount = 50, is_active = True\<rparr>"

definition cyrus :: User where
  "cyrus = \<lparr>u_id = 3, username = ''cyrus'', balance = 100, is_main = True,
            loan_request_amount = 100, is_active = True\<rparr>"

definition db_mixed :: DB where
  "db_mixed = \<lparr>users = [anna, bob, cyrus],
     payments =
       [\<lparr>p_id = 1, p_user_id = 1, p_amount = 0, p_jalali_year = 1403, p_jalali_month = 1\<rparr>,
        \<lparr>p_id = 2, p_user_id = 2, p_amount = 7, p_jalali_year = 1404, p_jalali_month = 1\<rparr>,
        \<lparr>p_id = 3, p_user_id = 1, p_amount = 30, p_jalali_year = 1403, p_jalali_month = 3\<rparr>,
        \<lparr>p_id = 4, p_user_id = 1, p_amount = 0, p_jalali_year = 1403, p_jalali_month = 2\<rparr>,
        \<lparr>p_id = 5, p_user_id = 3, p_amount = 20, p_jalali_year = 1403, p_jalali_month = 1\<rparr>,
        \<lparr>p_id = 6, p_user_id = 3, p_amount = 20, p_jalali_year = 1403, p_jalali_month = 2\<rparr>],
     loan_payments =
       [\<lparr>lp_payment_id = 4, lp_loan_id = 2, lp_amount = 5\<rparr>,
        \<lparr>lp_payment_id = 6, lp_loan_id = 1, lp_amount = 20\<rparr>,
        \<lparr>lp_payment_id = 2, lp_loan_id = 1, lp_amount = 7\<rparr>],
     loans =
       [\<lparr>l_id = 1, l_user_id = Some 2, l_amount = Some 300, l_state = ACTIVE,
         l_jalali_year = 1402, l_jalali_month = 1, l_created_at = 1,
         l_min_amount_for_each_payment = Some 20, l_log = None\<rparr>,
        \<lparr>l_id = 2, l_user_id = Some 1, l_amount = Some 100, l_state = ACTIVE,
         l_jalali_year = 1402, l_jalali_month = 2, l_created_at = 2,
         l_min_amount_for_each_payment = Some 20, l_log = None\<rparr>,
        \<lparr>l_id = 3, l_user_id = Some 1, l_amount = Some 1000, l_state = INITIAL,
         l_jalali_year = 1402, l_jalali_month = 3, l_created_at = 3,
         l_min_amount_for_each_payment = Some 20, l_log = None\<rparr>,
        \<lparr>l_id = 4, l_user_id = Some 3, l_amount = Some 400, l_state = INITIAL,
         l_jalali_year = 1402, l_jalali_month = 4, l_created_at = 4,
         l_min_amount_for_each_payment = Some 20, l_log = None\<rparr>,
        \<lparr>l_id = 5, l_user_id = None, l_amount = None, l_state = NO_ONE,
         l_jalali_year = 1402, l_jalali_month = 5, l_created_at = 5,
         l_min_amount_for_each_payment = None, l_log = None\<rparr>],
     config = None\<rparr>"

text \<open>A scored candidate with a given key and score.\<close>

definition cand :: "nat \<Rightarrow> decimal option \<Rightarrow> UserScore" where
  "cand i s = \<lparr>us_user_id = i, us_username = ''member'', us_score = s,
               us_loan_request_amount = 100\<rparr>"

text \<open>Two amounts of 8 fractional digits that differ in the last one.\<close>

definition amount_a :: decimal where
  "amount_a = 900000000000 + 1 / 10 ^ 8"

definition amount_b :: decimal where
  "amount_b = 900000000000 + 2 / 10 ^ 8"

section \<open>Properties of the queries and of the score\<close>

lemmas query_defs =
  user_payments_def last_payment_def user_loan_payments_def total_user_loan_payments_def
  user_active_loans_def total_loan_amount_def total_loan_user_get_def previous_loan_def
  total_payments_count_def months_with_loan_payment_def total_month_no_loan_def
  Sum_aggregate_def or_decimal_def

lemmas score_defs =
  compute_user_score_def numerator_def denominator_def log_previous_loan_def log_balance_def

lemma order_first_None [simp]: "order_first before xs = None \<longleftrightarrow> xs = []"
  by (induction xs) (auto split: option.splits)

lemma order_first_mem: "order_first before xs = Some x \<Longrightarrow> x \<in> set xs"
  by (induction xs arbitrary: x) (auto split: option.splits if_splits)

lemma last_payment_None: "last_payment db user = None \<longleftrightarrow> user_payments db user = []"
  by (simp add: last_payment_def)

lemma last_payment_mem: "last_payment db user = Some p \<Longrightarrow> p \<in> set (user_payments db user)"
  unfolding last_payment_def by (rule order_first_mem)

text \<open>The payment the score reads is one of a latest period: no payment of the
  member has a later year, or the same year and a later month.\<close>

lemma last_payment_latest:
  assumes "last_payment db user = Some p" and "q \<in> set (user_payments db user)"
  shows "p_jalali_year q < p_jalali_year p
         \<or> (p_jalali_year q = p_jalali_year p \<and> p_jalali_month q \<le> p_jalali_month p)"
proof -
  have "order_first
          (\<lambda>a b. p_jalali_year a > p_jalali_year b \<or>
                 (p_jalali_year a = p_jalali_year b \<and> p_jalali_month a > p_jalali_month b))
          xs = Some p
        \<Longrightarrow> q \<in> set xs
        \<Longrightarrow> p_jalali_year q < p_jalali_year p
            \<or> (p_jalali_year q = p_jalali_year p \<and> p_jalali_month q \<le> p_jalali_month p)"
    for xs :: "Payment list"
  proof (induction xs arbitrary: p)
    case Nil
    then show ?case by simp
  next
    case (Cons x xs)
    then show ?case
      by (fastforce split: option.splits if_splits)
  qed
  with assms show ?thesis unfolding last_payment_def by blast
qed

lemma denominator_pos:
  "0 < a \<Longrightarrow> 0 < total_user_loan_payments db user \<Longrightarrow> 0 < lg (total_loan_amount db user)
   \<Longrightarrow> 0 < total_loan_user_get db user \<Longrightarrow> 0 < lg (loan_request_amount user)
   \<Longrightarrow> 0 < denominator lg db user a"
  by (simp add: denominator_def)

lemma log_previous_loan_cong:
  "(\<And>x. 0 < x \<Longrightarrow> lg x = lg' x) \<Longrightarrow> log_previous_loan lg db user = log_previous_loan lg' db user"
  by (simp add: log_previous_loan_def split: option.splits)

lemma log_balance_cong:
  "(\<And>x. 0 < x \<Longrightarrow> lg x = lg' x) \<Longrightarrow> log_balance lg user = log_balance lg' user"
  by (simp add: log_balance_def)

lemma compute_user_score_cong:
  assumes "\<And>x. 0 < x \<Longrightarrow> lg x = lg' x"
  shows "compute_user_score lg db user = compute_user_score lg' db user"
proof -
  have n: "numerator lg db user = numerator lg' db user"
    by (simp add: numerator_def log_previous_loan_cong [OF assms] log_balance_cong [OF assms])
  show ?thesis
    using assms n
    by (auto simp: compute_user_score_def denominator_def not_le split: option.splits)
qed

text \<open>
  The queries of the source compute the facts of the specification. The first row
  of an ordering is the first row, in storage order, that no row comes before.
\<close>

lemma order_first_find:
  assumes irr: "\<And>a. \<not> before a a"
    and asym: "\<And>a b. before a b \<Longrightarrow> \<not> before b a"
    and nt: "\<And>a b c. \<not> before a b \<Longrightarrow> \<not> before b c \<Longrightarrow> \<not> before a c"
  shows "order_first before xs = find (\<lambda>x. \<forall>y \<in> set xs. \<not> before y x) xs"
proof (induction xs)
  case Nil
  show ?case by simp
next
  case (Cons x xs)
  show ?case
  proof (cases "order_first before xs")
    case None
    then have "xs = []" by simp
    then show ?thesis by (simp add: irr)
  next
    case (Some y)
    with Cons have f: "find (\<lambda>z. \<forall>w \<in> set xs. \<not> before w z) xs = Some y" by simp
    then have y: "y \<in> set xs" "\<forall>w \<in> set xs. \<not> before w y"
      by (auto simp: find_Some_iff)
    show ?thesis
    proof (cases "before y x")
      case True
      then have nx: "\<not> (\<forall>w \<in> set (x # xs). \<not> before w x)" using y(1) by auto
      have "find (\<lambda>z. \<forall>w \<in> set (x # xs). \<not> before w z) xs
              = find (\<lambda>z. \<forall>w \<in> set xs. \<not> before w z) xs"
      proof (rule find_cong [OF refl])
        fix z assume "z \<in> set xs"
        show "(\<forall>w \<in> set (x # xs). \<not> before w z) = (\<forall>w \<in> set xs. \<not> before w z)"
        proof
          assume "\<forall>w \<in> set xs. \<not> before w z"
          then have "\<not> before y z" using y(1) by blast
          moreover have "\<not> before x y" using True asym by blast
          ultimately have "\<not> before x z" using nt by blast
          with \<open>\<forall>w \<in> set xs. \<not> before w z\<close> show "\<forall>w \<in> set (x # xs). \<not> before w z" by simp
        qed simp
      qed
      with f nx Some True show ?thesis by auto
    next
      case False
      have "\<not> before w x" if "w \<in> set xs" for w
        using y(2) that False nt by blast
      then have "\<forall>w \<in> set (x # xs). \<not> before w x" by (simp add: irr)
      with Some False show ?thesis by simp
    qed
  qed
qed

lemma find_filter: "find Q (filter P xs) = find (\<lambda>x. P x \<and> Q x) xs"
  by (induction xs) simp_all

lemma last_payment_spec: "last_payment db u = most_recent_payment db u"
proof -
  let ?before = "\<lambda>a b. p_jalali_year a > p_jalali_year b \<or>
              (p_jalali_year a = p_jalali_year b \<and> p_jalali_month a > p_jalali_month b)"
  have "order_first ?before xs = find (\<lambda>x. \<forall>y \<in> set xs. \<not> ?before y x) xs" for xs :: "Payment list"
    by (rule order_first_find) auto
  then have "last_payment db u =
      find (\<lambda>p. p_user_id p = u_id u
               \<and> (\<forall>q \<in> set (user_payments db u). \<not> ?before q p)) (payments db)"
    unfolding last_payment_def by (simp add: user_payments_def find_filter)
  also have "\<dots> = most_recent_payment db u"
    unfolding most_recent_payment_def
    by (rule find_cong [OF refl]) (auto simp: user_payments_def not_later_def)
  finally show ?thesis .
qed

lemma previous_loan_spec: "previous_loan db u = most_recent_allocation db u"
proof -
  let ?before = "\<lambda>a b :: Loan. l_created_at a > l_created_at b"
  have "order_first ?before xs = find (\<lambda>x. \<forall>y \<in> set xs. \<not> ?before y x) xs" for xs :: "Loan list"
    by (rule order_first_find) auto
  then have "previous_loan db u =
      find (\<lambda>l. (l_user_id l = Some (u_id u) \<and> l_state l = ACTIVE)
               \<and> (\<forall>k \<in> set (user_active_loans db u). \<not> ?before k l)) (loans db)"
    unfolding previous_loan_def by (simp add: user_active_loans_def find_filter)
  also have "\<dots> = most_recent_allocation db u"
    unfolding most_recent_allocation_def
    by (rule find_cong [OF refl]) (auto simp: user_active_loans_def)
  finally show ?thesis .
qed

lemma user_active_loans_spec: "user_active_loans db u = active_allocations db u"
  unfolding user_active_loans_def active_allocations_def
  by (rule filter_cong [OF refl]) auto

lemma total_loan_user_get_spec: "total_loan_user_get db u = length (active_allocations db u)"
  by (simp add: total_loan_user_get_def user_active_loans_spec)

lemma user_loan_payments_spec: "user_loan_payments db u = member_portions db u"
proof -
  have inner: "concat (map (\<lambda>p. if p_id p = k then if p_user_id p = i then [(lp, p)] else [] else []) ps)
      = filter (\<lambda>(lp, p). p_id p = k \<and> p_user_id p = i) (map (Pair lp) ps)"
    for k i and lp :: LoanPayment and ps :: "Payment list"
    by (induction ps) simp_all
  have "concat (map (\<lambda>lp. concat (map (\<lambda>p. if p_id p = lp_payment_id lp
            then if p_user_id p = u_id u then [(lp, p)] else [] else []) ps)) lps)
      = filter (\<lambda>(lp, p). p_id p = lp_payment_id lp \<and> p_user_id p = u_id u) (List.product lps ps)"
    for lps :: "LoanPayment list" and ps :: "Payment list"
  proof (induction lps)
    case Nil
    show ?case by simp
  next
    case (Cons lp lps)
    have "filter (\<lambda>(lp', p). p_id p = lp_payment_id lp' \<and> p_user_id p = u_id u) (map (Pair lp) ps)
        = filter (\<lambda>(lp', p). p_id p = lp_payment_id lp \<and> p_user_id p = u_id u) (map (Pair lp) ps)"
      by (rule filter_cong [OF refl]) auto
    with Cons show ?case by (simp add: inner)
  qed
  then show ?thesis
    unfolding user_loan_payments_def member_portions_def by simp
qed

lemma total_user_loan_payments_spec:
  "total_user_loan_payments db u = length (member_portions db u)"
  by (simp add: total_user_loan_payments_def user_loan_payments_spec)

lemma total_loan_amount_spec: "total_loan_amount db u = active_total db u"
proof -
  have s: "sum_list (List.map_filter (\<lambda>v. v) (map l_amount xs)) = sum_list (map amount_or_zero xs)"
    for xs :: "Loan list"
    by (induction xs) (simp_all add: amount_or_zero_def List.map_filter_simps split: option.splits)
  have "or_decimal (Sum_aggregate (map l_amount xs)) 0 = sum_list (map amount_or_zero xs)"
    for xs :: "Loan list"
    using s [of xs] by (auto simp: or_decimal_def Sum_aggregate_def Let_def)
  then show ?thesis
    by (simp add: total_loan_amount_def active_total_def user_active_loans_spec)
qed

lemma months_with_loan_payment_spec: "months_with_loan_payment db u = card (repaid_periods db u)"
  by (simp add: months_with_loan_payment_def length_remdups_card_conv repaid_periods_def
      user_loan_payments_spec)

lemma total_month_no_loan_spec: "total_month_no_loan db u = unrepaid_months db u"
  by (simp add: total_month_no_loan_def total_payments_count_def user_payments_def
      months_with_loan_payment_spec unrepaid_months_def)

lemma log_balance_spec: "log_balance lg u = clamped_log lg (balance u)"
  by (simp add: log_balance_def clamped_log_def not_le)

lemma log_previous_loan_spec:
  "log_previous_loan lg db u =
     clamped_log lg (case most_recent_allocation db u of None \<Rightarrow> 0 | Some l \<Rightarrow> amount_or_zero l)"
  by (simp add: log_previous_loan_def previous_loan_spec clamped_log_def amount_or_zero_def not_le
      split: option.splits)

lemma numerator_spec: "numerator lg db u = numerator_product lg db u"
  by (simp add: numerator_def numerator_product_def log_previous_loan_spec log_balance_spec
      total_month_no_loan_spec)

lemma denominator_spec:
  assumes "last_payment db u = Some p"
  shows "denominator lg db u (p_amount p) = denominator_product lg db u"
  using assms
  by (simp add: denominator_def denominator_product_def last_payment_spec
      total_user_loan_payments_spec total_loan_amount_spec total_loan_user_get_spec)

lemmas spec_defs = not_later_def most_recent_payment_def member_portions_def
  active_allocations_def amount_or_zero_def active_total_def most_recent_allocation_def
  clamped_log_def repaid_periods_def unrepaid_months_def

lemma most_recent_payment_None:
  "most_recent_payment db u = None \<longleftrightarrow> \<not> (\<exists>p \<in> set (payments db). p_user_id p = u_id u)"
  using last_payment_None [of db u]
  by (simp add: last_payment_spec [symmetric] user_payments_def filter_empty_conv)

lemma denominator_product_pos:
  assumes "most_recent_payment db u = Some p" "0 < p_amount p" "member_portions db u \<noteq> []"
    "0 < lg (active_total db u)" "active_allocations db u \<noteq> []"
    "0 < lg (loan_request_amount u)"
  shows "0 < denominator_product lg db u"
  using assms by (simp add: denominator_product_def)

text \<open>The example fund, member by member.\<close>

lemma mixed_fields:
  "balance anna = 100" "loan_request_amount anna = 100" "u_id anna = 1"
  "balance bob = 300" "loan_request_amount bob = 50" "u_id bob = 2"
  "balance cyrus = 100" "loan_request_amount cyrus = 100" "u_id cyrus = 3"
  by (simp_all add: anna_def bob_def cyrus_def)

lemma mixed_anna:
  "most_recent_payment db_mixed anna
     = Some \<lparr>p_id = 3, p_user_id = 1, p_amount = 30, p_jalali_year = 1403, p_jalali_month = 3\<rparr>"
  "member_portions db_mixed anna
     = [(\<lparr>lp_payment_id = 4, lp_loan_id = 2, lp_amount = 5\<rparr>,
         \<lparr>p_id = 4, p_user_id = 1, p_amount = 0, p_jalali_year = 1403, p_jalali_month = 2\<rparr>)]"
  "active_total db_mixed anna = 100"
  "length (active_allocations db_mixed anna) = 1"
  "unrepaid_months db_mixed anna = 2"
  "most_recent_allocation db_mixed anna
     = Some \<lparr>l_id = 2, l_user_id = Some 1, l_amount = Some 100, l_state = ACTIVE,
         l_jalali_year = 1402, l_jalali_month = 2, l_created_at = 2,
         l_min_amount_for_each_payment = Some 20, l_log = None\<rparr>"
  by (simp_all add: spec_defs db_mixed_def anna_def)

lemma mixed_bob:
  "most_recent_payment db_mixed bob
     = Some \<lparr>p_id = 2, p_user_id = 2, p_amount = 7, p_jalali_year = 1404, p_jalali_month = 1\<rparr>"
  "length (member_portions db_mixed bob) = 1"
  "active_total db_mixed bob = 300"
  "length (active_allocations db_mixed bob) = 1"
  "unrepaid_months db_mixed bob = 0"
  by (simp_all add: spec_defs db_mixed_def bob_def)

lemma mixed_cyrus:
  "most_recent_payment db_mixed cyrus
     = Some \<lparr>p_id = 6, p_user_id = 3, p_amount = 20, p_jalali_year = 1403, p_jalali_month = 2\<rparr>"
  "length (member_portions db_mixed cyrus) = 1"
  "active_allocations db_mixed cyrus = []"
  by (simp_all add: spec_defs db_mixed_def cyrus_def)

text \<open>
  C1. The score is unlimited exactly when one of the five denominator conditions
  holds: (1) the member has no payment, or the amount of the most recent one is not
  positive; (2) no loan-repayment portion is attributed to the member; (3) the total
  of the member's ACTIVE allocations, or its logarithm, is not positive; (4) the
  member has no ACTIVE allocation; (5) the requested amount, or its logarithm, is
  not positive; or, last, the product of the five factors is not positive. When the
  five conditions fail, that product is positive, and then a numerator product that
  is not positive gives the finite score 0. Each amount is tested before its
  logarithm is taken: the score does not depend on what the logarithm gives outside
  the positive amounts.
\<close>

theorem compute_user_score_unlimited_iff:
  "(compute_user_score lg db u = None \<longleftrightarrow>
      (\<not> (\<exists>p \<in> set (payments db). p_user_id p = u_id u)
        \<or> (\<exists>p. most_recent_payment db u = Some p \<and> p_amount p \<le> 0))
    \<or> member_portions db u = []
    \<or> (active_total db u \<le> 0 \<or> lg (active_total db u) \<le> 0)
    \<or> active_allocations db u = []
    \<or> (loan_request_amount u \<le> 0 \<or> lg (loan_request_amount u) \<le> 0)
    \<or> denominator_product lg db u \<le> 0)
   \<and> ((\<exists>p. most_recent_payment db u = Some p \<and> 0 < p_amount p)
        \<and> member_portions db u \<noteq> []
        \<and> 0 < active_total db u \<and> 0 < lg (active_total db u)
        \<and> active_allocations db u \<noteq> []
        \<and> 0 < loan_request_amount u \<and> 0 < lg (loan_request_amount u)
       \<longrightarrow> 0 < denominator_product lg db u
          \<and> (numerator_product lg db u \<le> 0 \<longrightarrow> compute_user_score lg db u = Some 0))
   \<and> ((\<forall>x. 0 < x \<longrightarrow> lg x = lg' x)
        \<longrightarrow> compute_user_score lg db u = compute_user_score lg' db u)"
proof (intro conjI impI)
  show "compute_user_score lg db u = None \<longleftrightarrow>
      (\<not> (\<exists>p \<in> set (payments db). p_user_id p = u_id u)
        \<or> (\<exists>p. most_recent_payment db u = Some p \<and> p_amount p \<le> 0))
    \<or> member_portions db u = []
    \<or> (active_total db u \<le> 0 \<or> lg (active_total db u) \<le> 0)
    \<or> active_allocations db u = []
    \<or> (loan_request_amount u \<le> 0 \<or> lg (loan_request_amount u) \<le> 0)
    \<or> denominator_product lg db u \<le> 0"
  proof (cases "most_recent_payment db u")
    case None
    moreover from None have "\<not> (\<exists>p \<in> set (payments db). p_user_id p = u_id u)"
      by (simp add: most_recent_payment_None)
    ultimately show ?thesis
      by (simp add: compute_user_score_def last_payment_spec)
  next
    case (Some p)
    then have lp: "last_payment db u = Some p"
      by (simp add: last_payment_spec)
    from Some have ex: "\<exists>p \<in> set (payments db). p_user_id p = u_id u"
      using most_recent_payment_None [of db u] by simp
    show ?thesis
      using Some ex
      by (simp add: compute_user_score_def lp denominator_spec [OF lp]
          total_user_loan_payments_spec total_loan_amount_spec total_loan_user_get_spec)
  qed
next
  assume a: "(\<exists>p. most_recent_payment db u = Some p \<and> 0 < p_amount p)
        \<and> member_portions db u \<noteq> []
        \<and> 0 < active_total db u \<and> 0 < lg (active_total db u)
        \<and> active_allocations db u \<noteq> []
        \<and> 0 < loan_request_amount u \<and> 0 < lg (loan_request_amount u)"
  then obtain p where p: "most_recent_payment db u = Some p" "0 < p_amount p"
    by blast
  from a p show d: "0 < denominator_product lg db u"
    by (intro denominator_product_pos [of db u p]) simp_all
  assume n: "numerator_product lg db u \<le> 0"
  have lp: "last_payment db u = Some p"
    using p by (simp add: last_payment_spec)
  from a p d n show "compute_user_score lg db u = Some 0"
    by (simp add: compute_user_score_def lp denominator_spec [OF lp] numerator_spec
        total_user_loan_payments_spec total_loan_amount_spec total_loan_user_get_spec)
next
  assume "\<forall>x. 0 < x \<longrightarrow> lg x = lg' x"
  then show "compute_user_score lg db u = compute_user_score lg' db u"
    by (intro compute_user_score_cong) simp
qed

text \<open>
  The theorem in the example fund, with the real logarithm. Cyrus has payments and
  a portion but no ACTIVE allocation: unlimited. Bob has the five factors positive
  and no month paid without a repayment: 0. For Anna every condition fails, her
  most recent payment being the row of 1403/3 and her ACTIVE total 100 (the INITIAL
  loan of 1000 and the other members' rows do not count): her score is finite.
\<close>

theorem compute_user_score_unlimited_iff_witness:
  "compute_user_score ln db_mixed cyrus = None
   \<and> active_allocations db_mixed cyrus = []
   \<and> length (member_portions db_mixed cyrus) = 1
   \<and> compute_user_score ln db_mixed bob = Some 0
   \<and> unrepaid_months db_mixed bob = 0
   \<and> compute_user_score ln db_mixed anna \<noteq> None
   \<and> most_recent_payment db_mixed anna
       = Some \<lparr>p_id = 3, p_user_id = 1, p_amount = 30, p_jalali_year = 1403, p_jalali_month = 3\<rparr>
   \<and> active_total db_mixed anna = 100"
proof -
  have c: "compute_user_score ln db_mixed cyrus = None"
    using compute_user_score_unlimited_iff [of ln db_mixed cyrus ln]
    by (simp add: mixed_cyrus)
  have bl: "member_portions db_mixed bob \<noteq> []" "active_allocations db_mixed bob \<noteq> []"
    using mixed_bob(2,4) by auto
  have bn: "numerator_product ln db_mixed bob \<le> 0"
    by (simp add: numerator_product_def mixed_bob)
  have b: "compute_user_score ln db_mixed bob = Some 0"
    using compute_user_score_unlimited_iff [of ln db_mixed bob ln] bl bn
    by (simp add: mixed_bob mixed_fields)
  have al: "active_allocations db_mixed anna \<noteq> []"
    using mixed_anna(4) by auto
  have ap: "\<exists>p \<in> set (payments db_mixed). p_user_id p = u_id anna"
    by (simp add: db_mixed_def mixed_fields)
  have ad: "0 < denominator_product ln db_mixed anna"
    by (simp add: denominator_product_def mixed_anna mixed_fields)
  have a: "compute_user_score ln db_mixed anna \<noteq> None"
    using compute_user_score_unlimited_iff [of ln db_mixed anna ln] al ap ad
    by (simp add: mixed_anna mixed_fields)
  from c b a show ?thesis
    by (simp add: mixed_cyrus mixed_bob mixed_anna)
qed

section \<open>Properties of the assignment\<close>

text \<open>Reading the configuration changes no table: every query, the score and both
  loops give the same on the database with the configuration row written.\<close>

lemma get_config_eq: "get_config db = (db\<lparr>config := Some (the_config db)\<rparr>, the_config db)"
  by (simp add: get_config_def the_config_def split: option.splits)

lemma queries_config [simp]:
  "user_payments (db\<lparr>config := c\<rparr>) u = user_payments db u"
  "last_payment (db\<lparr>config := c\<rparr>) u = last_payment db u"
  "user_loan_payments (db\<lparr>config := c\<rparr>) u = user_loan_payments db u"
  "total_user_loan_payments (db\<lparr>config := c\<rparr>) u = total_user_loan_payments db u"
  "user_active_loans (db\<lparr>config := c\<rparr>) u = user_active_loans db u"
  "total_loan_amount (db\<lparr>config := c\<rparr>) u = total_loan_amount db u"
  "total_loan_user_get (db\<lparr>config := c\<rparr>) u = total_loan_user_get db u"
  "previous_loan (db\<lparr>config := c\<rparr>) u = previous_loan db u"
  "total_payments_count (db\<lparr>config := c\<rparr>) u = total_payments_count db u"
  "months_with_loan_payment (db\<lparr>config := c\<rparr>) u = months_with_loan_payment db u"
  "total_month_no_loan (db\<lparr>config := c\<rparr>) u = total_month_no_loan db u"
  by (simp_all add: user_payments_def last_payment_def user_loan_payments_def
      total_user_loan_payments_def user_active_loans_def total_loan_amount_def
      total_loan_user_get_def previous_loan_def total_payments_count_def
      months_with_loan_payment_def total_month_no_loan_def)

lemma score_config [simp]:
  "compute_user_score lg (db\<lparr>config := c\<rparr>) u = compute_user_score lg db u"
  by (simp add: compute_user_score_def numerator_def denominator_def log_previous_loan_def cong: option.case_cong if_cong)

lemma stages_config [simp]:
  "all_users (db\<lparr>config := c\<rparr>) = all_users db"
  "paid_user_ids (db\<lparr>config := c\<rparr>) y m = paid_user_ids db y m"
  "unpaid_users (db\<lparr>config := c\<rparr>) y m = unpaid_users db y m"
  "saghat_balance (db\<lparr>config := c\<rparr>) = saghat_balance db"
  "has_active_loan (db\<lparr>config := c\<rparr>) u = has_active_loan db u"
  "period_taken (db\<lparr>config := c\<rparr>) y m = period_taken db y m"
  by (simp_all add: all_users_def paid_user_ids_def unpaid_users_def saghat_balance_def
      has_active_loan_def period_taken_def)

lemma determine_eligibility_config [simp]:
  "determine_eligibility (db\<lparr>config := c\<rparr>) us acc = determine_eligibility db us acc"
  by (induction db us acc rule: determine_eligibility.induct) simp_all

lemma score_users_config [simp]:
  "score_users lg (db\<lparr>config := c\<rparr>) us acc = score_users lg db us acc"
  by (induction lg db us acc rule: score_users.induct) (simp_all add: Let_def)

text \<open>The two loops in closed form: the eligibility loop appends one entry for every
  excluded member and keeps the others; the scoring loop appends one entry and one
  score for every eligible member.\<close>

lemma determine_eligibility_closed:
  "determine_eligibility db us (alog, el) =
     (alog\<lparr>not_participated := not_participated alog @
         map (not_participated_entry db) (filter (\<lambda>u. exclusion_reason db u \<noteq> None) us)\<rparr>,
      el @ filter (\<lambda>u. exclusion_reason db u = None) us)"
  by (induction db us "(alog, el)" arbitrary: alog el rule: determine_eligibility.induct)
     (simp_all add: exclusion_reason_def not_participated_entry_def)

lemma score_users_closed:
  "score_users lg db us (alog, ss) =
     (alog\<lparr>participated := participated alog @ map (participated_entry lg db) us\<rparr>,
      ss @ map (user_score lg db) us)"
  by (induction lg db us "(alog, ss)" arbitrary: alog ss rule: score_users.induct)
     (simp_all add: participated_entry_def user_score_def Let_def)

lemma eligibility_closed:
  "eligibility db =
     (empty_log\<lparr>not_participated :=
         map (not_participated_entry db) (filter (\<lambda>u. exclusion_reason db u \<noteq> None) (all_users db))\<rparr>,
      filter (\<lambda>u. exclusion_reason db u = None) (all_users db))"
  by (simp add: eligibility_def determine_eligibility_closed empty_log_def)

lemma scoring_closed:
  "scoring lg db =
     (fst (eligibility db)\<lparr>participated := map (participated_entry lg db) (snd (eligibility db))\<rparr>,
      map (user_score lg db) (snd (eligibility db)))"
  by (simp add: scoring_def score_users_closed eligibility_closed empty_log_def)

lemma saghat_balance_sum: "saghat_balance db = sum_list (map balance (all_users db))"
proof -
  have "List.map_filter (\<lambda>v. v) (map (\<lambda>u. Some (balance u)) xs) = map balance xs" for xs :: "User list"
    by (induction xs) simp_all
  then show ?thesis
    by (simp add: saghat_balance_def Sum_aggregate_def or_decimal_def all_users_def)
qed

text \<open>The group that the source selects is the winner group of the specification.\<close>

lemma py_max_Max: "xs \<noteq> [] \<Longrightarrow> py_max xs = Inr (Max (set xs))"
proof -
  have "(\<lambda>item max_item. if item > max_item then item else max_item) = (max :: decimal \<Rightarrow> decimal \<Rightarrow> decimal)"
    by (auto simp: fun_eq_iff max_def)
  moreover have "fold max ys y = Max (set (y # ys))" for y :: decimal and ys
    by (simp only: Max.set_eq_fold)
  ultimately show "xs \<noteq> [] \<Longrightarrow> py_max xs = Inr (Max (set xs))"
    by (cases xs) simp_all
qed

lemma max_score_group_eq: "fs \<noteq> [] \<Longrightarrow> max_score_group fs = Inr (winner_group fs)"
  by (auto simp: max_score_group_def winner_group_def py_max_Max)

lemma winner_group_nonempty: "fs \<noteq> [] \<Longrightarrow> winner_group fs \<noteq> []"
proof (cases "\<exists>us \<in> set fs. us_score us = None")
  case True
  then show ?thesis by (auto simp: winner_group_def filter_empty_conv)
next
  case False
  assume "fs \<noteq> []"
  then have "Max ((\<lambda>v. the (us_score v)) ` set fs) \<in> (\<lambda>v. the (us_score v)) ` set fs"
    by (intro Max_in) simp_all
  then obtain v where v: "v \<in> set fs" "the (us_score v) = Max ((\<lambda>v. the (us_score v)) ` set fs)"
    by auto
  with False have "us_score v = Some (Max ((\<lambda>v. the (us_score v)) ` set fs))"
    by (cases "us_score v") auto
  with v False show ?thesis by (auto simp: winner_group_def filter_empty_conv)
qed

text \<open>The run, in terms of the values of its local variables.\<close>

lemma run_unfold:
  "run_loan_assignment lg env db y m =
     (if unpaid_users db y m \<noteq> [] then
        (db\<lparr>config := Some (the_config db)\<rparr>,
         Inl (ValueError_unpaid y m (map username (unpaid_users db y m))))
      else if snd (eligibility db) = [] then
        Loan_objects_create env (db\<lparr>config := Some (the_config db)\<rparr>)
          (no_one_fields y m
             \<lparr>json_not_participated = not_participated (fst (eligibility db)),
              json_participated = [], json_selected = None, json_random_pool = [],
              json_note = None\<rparr>)
      else if fundable_scores lg db = [] then
        Loan_objects_create env (db\<lparr>config := Some (the_config db)\<rparr>)
          (no_one_fields y m
             \<lparr>json_not_participated = not_participated (fst (scoring lg db)),
              json_participated = participated (fst (scoring lg db)),
              json_selected = None, json_random_pool = [],
              json_note = Some ''No user's loan_request_amount fits within saghat_balance''\<rparr>)
      else
        (case random_choice env (winner_group (fundable_scores lg db)) of
           Inl e \<Rightarrow> (db\<lparr>config := Some (the_config db)\<rparr>, Inl e)
         | Inr ws \<Rightarrow>
             (case next_user (snd (eligibility db)) (us_user_id ws) of
                Inl e \<Rightarrow> (db\<lparr>config := Some (the_config db)\<rparr>, Inl e)
              | Inr winner_user \<Rightarrow>
                  Loan_objects_create env (db\<lparr>config := Some (the_config db)\<rparr>)
                    (active_fields winner_user (us_loan_request_amount ws) y m
                       (min_amount_for_loan_payment (the_config db))
                       (log_json
                          (fst (scoring lg db)
                             \<lparr>random_pool := map us_user_id (winner_group (fundable_scores lg db)),
                              selected := Some (us_user_id ws)\<rparr>)
                          None)))))"
  by (simp add: run_loan_assignment_def get_config_eq eligibility_def scoring_def
      fundable_scores_def max_score_group_eq case_prod_beta Let_def split: sum.splits)

lemma random_choice_nonempty:
  "g \<noteq> [] \<Longrightarrow> random_choice env g = Inr (g ! (draw env mod length g))"
  by (simp add: random_choice_def)

lemma winner_score_in_group:
  "fundable_scores lg db \<noteq> [] \<Longrightarrow> winner_score lg env db \<in> set (winner_group (fundable_scores lg db))"
  unfolding winner_score_def by (intro nth_mem mod_less_divisor) (simp add: winner_group_nonempty)

lemma winner_group_subset: "set (winner_group fs) \<subseteq> set fs"
  by (auto simp: winner_group_def)

text \<open>A candidate is in the winner group exactly when no candidate has a higher score,
  the unlimited score being above every finite one.\<close>

lemma winner_group_iff:
  "us \<in> set (winner_group fs) \<longleftrightarrow>
     us \<in> set fs \<and>
     (\<forall>v \<in> set fs. us_score us = None
        \<or> (\<exists>a b. us_score v = Some a \<and> us_score us = Some b \<and> a \<le> b))"
proof (cases "\<exists>v \<in> set fs. us_score v = None")
  case True
  then show ?thesis by (auto simp: winner_group_def)
next
  case False
  let ?S = "(\<lambda>v. the (us_score v)) ` set fs"
  have fin: "finite ?S" by simp
  have wg: "winner_group fs = filter (\<lambda>us. us_score us = Some (Max ?S)) fs"
    unfolding winner_group_def by (rule if_not_P [OF False])
  show ?thesis
  proof
    assume "us \<in> set (winner_group fs)"
    then have m: "us \<in> set fs" "us_score us = Some (Max ?S)"
      unfolding wg by simp_all
    have "\<exists>a b. us_score v = Some a \<and> us_score us = Some b \<and> a \<le> b" if "v \<in> set fs" for v
    proof -
      from that False obtain a where a: "us_score v = Some a" by (cases "us_score v") auto
      with that have "a \<in> ?S" by force
      then have "a \<le> Max ?S" using fin by (rule Max_ge [rotated])
      with a m(2) show ?thesis by simp
    qed
    with m(1) show "us \<in> set fs \<and>
     (\<forall>v \<in> set fs. us_score us = None
        \<or> (\<exists>a b. us_score v = Some a \<and> us_score us = Some b \<and> a \<le> b))"
      by blast
  next
    assume r: "us \<in> set fs \<and>
     (\<forall>v \<in> set fs. us_score us = None
        \<or> (\<exists>a b. us_score v = Some a \<and> us_score us = Some b \<and> a \<le> b))"
    with False obtain b where b: "us_score us = Some b" by (cases "us_score us") auto
    with r have bS: "b \<in> ?S" by force
    have "a \<le> b" if "a \<in> ?S" for a
    proof -
      from that obtain v where v: "v \<in> set fs" "a = the (us_score v)" by auto
      with r b show ?thesis by fastforce
    qed
    with bS fin have "Max ?S = b" by (intro Max_eqI) auto
    with r b show "us \<in> set (winner_group fs)"
      unfolding wg by simp
  qed
qed

lemma fundable_scores_closed:
  "fundable_scores lg db =
     filter (\<lambda>us. us_loan_request_amount us \<le> sum_list (map balance (all_users db)))
       (map (user_score lg db) (snd (eligibility db)))"
  by (simp add: fundable_scores_def fundable_def scoring_closed saghat_balance_sum)

lemma fundable_scores_eligible:
  "us \<in> set (fundable_scores lg db) \<Longrightarrow> \<exists>u \<in> set (snd (eligibility db)). us = user_score lg db u"
  by (auto simp: fundable_scores_closed)

lemma next_user_found:
  assumes "u \<in> set el" "u_id u = i"
  shows "\<exists>wu. next_user el i = Inr wu \<and> u_id wu = i"
proof (cases "find (\<lambda>u. u_id u = i) el")
  case None
  with assms show ?thesis by (auto simp: find_None_iff)
next
  case (Some wu)
  then have "u_id wu = i" by (auto simp: find_Some_iff)
  with Some show ?thesis by (simp add: next_user_def)
qed

lemma run_winner:
  assumes "unpaid_users db y m = []" and "fundable_scores lg db \<noteq> []"
  shows "run_loan_assignment lg env db y m =
           Loan_objects_create env (db\<lparr>config := Some (the_config db)\<rparr>)
             \<lparr>l_id = 0, l_user_id = Some (us_user_id (winner_score lg env db)),
              l_amount = Some (us_loan_request_amount (winner_score lg env db)),
              l_state = ACTIVE, l_jalali_year = y, l_jalali_month = m, l_created_at = 0,
              l_min_amount_for_each_payment = Some (min_amount_for_loan_payment (the_config db)),
              l_log = Some
                \<lparr>json_not_participated = not_participated (fst (eligibility db)),
                 json_participated = map (participated_entry lg db) (snd (eligibility db)),
                 json_selected = Some (us_user_id (winner_score lg env db)),
                 json_random_pool = map us_user_id (winner_group (fundable_scores lg db)),
                 json_note = None\<rparr>\<rparr>"
proof -
  let ?g = "winner_group (fundable_scores lg db)"
  let ?w = "winner_score lg env db"
  have g: "?g \<noteq> []" using assms(2) by (rule winner_group_nonempty)
  have rc: "random_choice env ?g = Inr ?w"
    using g by (simp add: random_choice_nonempty winner_score_def)
  have "?w \<in> set (fundable_scores lg db)"
    using winner_score_in_group [OF assms(2)] winner_group_subset by blast
  then obtain u where u: "u \<in> set (snd (eligibility db))" "?w = user_score lg db u"
    using fundable_scores_eligible by blast
  then have "u_id u = us_user_id ?w" by (simp add: user_score_def)
  with u(1) obtain wu where wu: "next_user (snd (eligibility db)) (us_user_id ?w) = Inr wu"
      "u_id wu = us_user_id ?w"
    using next_user_found by blast
  have el: "snd (eligibility db) \<noteq> []" using u(1) by auto
  show ?thesis
    using assms el rc wu
    by (simp add: run_unfold active_fields_def log_json_def scoring_closed)
qed

lemma create_taken:
  "period_taken db (l_jalali_year kw) (l_jalali_month kw) \<Longrightarrow>
   Loan_objects_create env db kw = (db, Inl IntegrityError)"
  by (simp add: Loan_objects_create_def)

lemma create_free:
  "\<not> period_taken db (l_jalali_year kw) (l_jalali_month kw) \<Longrightarrow>
   Loan_objects_create env db kw =
     (db\<lparr>loans := loans db @ [created_row env db kw]\<rparr>, Inr (created_row env db kw))"
  by (simp add: Loan_objects_create_def created_row_def Let_def)

lemma run_shape:
  assumes "unpaid_users db y m = []"
  shows "\<exists>kw. run_loan_assignment lg env db y m =
              Loan_objects_create env (db\<lparr>config := Some (the_config db)\<rparr>) kw
           \<and> l_jalali_year kw = y \<and> l_jalali_month kw = m \<and> l_log kw \<noteq> None
           \<and> ((l_state kw = NO_ONE \<and> l_user_id kw = None \<and> l_amount kw = None
                \<and> json_selected (the (l_log kw)) = None)
              \<or> (l_state kw = ACTIVE \<and> l_user_id kw \<noteq> None \<and> l_amount kw \<noteq> None
                \<and> json_selected (the (l_log kw)) \<noteq> None))"
proof (cases "fundable_scores lg db = []")
  case False
  show ?thesis
    unfolding run_winner [OF assms False] by (intro exI conjI) (rule refl, simp_all)
next
  case True
  show ?thesis
  proof (cases "snd (eligibility db) = []")
    case el: True
    have "run_loan_assignment lg env db y m =
        Loan_objects_create env (db\<lparr>config := Some (the_config db)\<rparr>)
          (no_one_fields y m
             \<lparr>json_not_participated = not_participated (fst (eligibility db)),
              json_participated = [], json_selected = None, json_random_pool = [],
              json_note = None\<rparr>)"
      using assms el by (simp add: run_unfold)
    then show ?thesis
      unfolding no_one_fields_def by (intro exI conjI) (assumption, simp_all)
  next
    case el: False
    have "run_loan_assignment lg env db y m =
        Loan_objects_create env (db\<lparr>config := Some (the_config db)\<rparr>)
          (no_one_fields y m
             \<lparr>json_not_participated = not_participated (fst (scoring lg db)),
              json_participated = participated (fst (scoring lg db)),
              json_selected = None, json_random_pool = [],
              json_note = Some ''No user's loan_request_amount fits within saghat_balance''\<rparr>)"
      using assms el True by (simp add: run_unfold)
    then show ?thesis
      unfolding no_one_fields_def by (intro exI conjI) (assumption, simp_all)
  qed
qed

lemma run_unpaid:
  "unpaid_users db y m \<noteq> [] \<Longrightarrow>
   run_loan_assignment lg env db y m =
     (db\<lparr>config := Some (the_config db)\<rparr>,
      Inl (ValueError_unpaid y m (map username (unpaid_users db y m))))"
  by (simp add: run_unfold)

lemma fundable_nonempty_eligible: "fundable_scores lg db \<noteq> [] \<Longrightarrow> snd (eligibility db) \<noteq> []"
  by (auto simp: fundable_scores_closed)

lemma the_config_update [simp]:
  "the_config (db\<lparr>config := Some c\<rparr>) = c"
  "the_config (db\<lparr>loans := ls\<rparr>) = the_config db"
  by (simp_all add: the_config_def)

lemma unpaid_users_loans [simp]:
  "unpaid_users (db\<lparr>loans := ls\<rparr>) y m = unpaid_users db y m"
  by (simp add: unpaid_users_def all_users_def paid_user_ids_def)

lemma period_taken_append:
  "period_taken (db\<lparr>loans := loans db @ [l]\<rparr>) y m
     \<longleftrightarrow> period_taken db y m \<or> (l_jalali_year l = y \<and> l_jalali_month l = m)"
  by (auto simp: period_taken_def)

lemma created_row_fields [simp]:
  "l_jalali_year (created_row env db kw) = l_jalali_year kw"
  "l_jalali_month (created_row env db kw) = l_jalali_month kw"
  "l_state (created_row env db kw) = l_state kw"
  "l_user_id (created_row env db kw) = l_user_id kw"
  "l_amount (created_row env db kw) = l_amount kw"
  "l_log (created_row env db kw) = l_log kw"
  "l_min_amount_for_each_payment (created_row env db kw) = l_min_amount_for_each_payment kw"
  by (simp_all add: created_row_def)

text \<open>What a run returns, in the two outcomes of the insert.\<close>

lemma run_result:
  assumes "unpaid_users db y m = []"
  shows "\<exists>kw. l_jalali_year kw = y \<and> l_jalali_month kw = m \<and> l_log kw \<noteq> None
           \<and> ((l_state kw = NO_ONE \<and> l_user_id kw = None \<and> l_amount kw = None
                \<and> json_selected (the (l_log kw)) = None)
              \<or> (l_state kw = ACTIVE \<and> l_user_id kw \<noteq> None \<and> l_amount kw \<noteq> None
                \<and> json_selected (the (l_log kw)) \<noteq> None))
           \<and> run_loan_assignment lg env db y m =
               (if period_taken db y m
                then (db\<lparr>config := Some (the_config db)\<rparr>, Inl IntegrityError)
                else (db\<lparr>config := Some (the_config db),
                         loans := loans db @ [created_row env db kw]\<rparr>,
                      Inr (created_row env db kw)))"
proof -
  from run_shape [OF assms, of lg env] obtain kw where
    r: "run_loan_assignment lg env db y m =
          Loan_objects_create env (db\<lparr>config := Some (the_config db)\<rparr>) kw"
    and k: "l_jalali_year kw = y" "l_jalali_month kw = m" "l_log kw \<noteq> None"
      "(l_state kw = NO_ONE \<and> l_user_id kw = None \<and> l_amount kw = None
          \<and> json_selected (the (l_log kw)) = None)
       \<or> (l_state kw = ACTIVE \<and> l_user_id kw \<noteq> None \<and> l_amount kw \<noteq> None
          \<and> json_selected (the (l_log kw)) \<noteq> None)"
    by blast
  have "run_loan_assignment lg env db y m =
          (if period_taken db y m
           then (db\<lparr>config := Some (the_config db)\<rparr>, Inl IntegrityError)
           else (db\<lparr>config := Some (the_config db),
                    loans := loans db @ [created_row env db kw]\<rparr>,
                 Inr (created_row env db kw)))"
    unfolding r using k(1,2)
    by (simp add: Loan_objects_create_def created_row_def Let_def)
  with k show ?thesis by blast
qed

lemma run_error_state:
  "run_loan_assignment lg env db y m = (db', Inl e) \<Longrightarrow> db' = db\<lparr>config := Some (the_config db)\<rparr>"
proof (cases "unpaid_users db y m = []")
  case True
  assume a: "run_loan_assignment lg env db y m = (db', Inl e)"
  from run_result [OF True, of lg env] a show ?thesis
    by (auto split: if_splits)
next
  case False
  assume a: "run_loan_assignment lg env db y m = (db', Inl e)"
  with run_unpaid [OF False, of lg env] show ?thesis by simp
qed

lemma run_success:
  assumes "run_loan_assignment lg env db y m = (db', Inr loan)"
  shows "unpaid_users db y m = [] \<and> \<not> period_taken db y m
         \<and> db' = db\<lparr>config := Some (the_config db), loans := loans db @ [loan]\<rparr>
         \<and> l_jalali_year loan = y \<and> l_jalali_month loan = m \<and> l_log loan \<noteq> None
         \<and> ((l_state loan = NO_ONE \<and> l_user_id loan = None \<and> l_amount loan = None
              \<and> json_selected (the (l_log loan)) = None)
            \<or> (l_state loan = ACTIVE \<and> l_user_id loan \<noteq> None \<and> l_amount loan \<noteq> None
              \<and> json_selected (the (l_log loan)) \<noteq> None))"
proof (cases "unpaid_users db y m = []")
  case False
  with run_unpaid [OF False, of lg env] assms show ?thesis by simp
next
  case True
  from run_result [OF True, of lg env] obtain kw where
    k: "l_jalali_year kw = y" "l_jalali_month kw = m" "l_log kw \<noteq> None"
      "(l_state kw = NO_ONE \<and> l_user_id kw = None \<and> l_amount kw = None
          \<and> json_selected (the (l_log kw)) = None)
       \<or> (l_state kw = ACTIVE \<and> l_user_id kw \<noteq> None \<and> l_amount kw \<noteq> None
          \<and> json_selected (the (l_log kw)) \<noteq> None)"
    and r: "run_loan_assignment lg env db y m =
               (if period_taken db y m
                then (db\<lparr>config := Some (the_config db)\<rparr>, Inl IntegrityError)
                else (db\<lparr>config := Some (the_config db),
                         loans := loans db @ [created_row env db kw]\<rparr>,
                      Inr (created_row env db kw)))"
    by blast
  from r assms have np: "\<not> period_taken db y m" by (auto split: if_splits)
  with r assms have l: "loan = created_row env db kw"
    and d: "db' = db\<lparr>config := Some (the_config db), loans := loans db @ [loan]\<rparr>"
    by simp_all
  from True np d k show ?thesis unfolding l by simp
qed

lemma run_no_eligible:
  assumes "unpaid_users db y m = []" and "snd (eligibility db) = []"
  shows "run_loan_assignment lg env db y m =
           Loan_objects_create env (db\<lparr>config := Some (the_config db)\<rparr>)
             (no_one_fields y m
                \<lparr>json_not_participated = map (not_participated_entry db) (all_users db),
                 json_participated = [], json_selected = None, json_random_pool = [],
                 json_note = None\<rparr>)"
proof -
  from assms(2) have "filter (\<lambda>u. exclusion_reason db u \<noteq> None) (all_users db) = all_users db"
    by (simp add: eligibility_closed filter_empty_conv)
  then have "not_participated (fst (eligibility db)) = map (not_participated_entry db) (all_users db)"
    by (simp add: eligibility_closed)
  with assms show ?thesis by (simp add: run_unfold)
qed

lemma run_no_fundable:
  assumes "unpaid_users db y m = []" and "snd (eligibility db) \<noteq> []"
    and "fundable_scores lg db = []"
  shows "run_loan_assignment lg env db y m =
           Loan_objects_create env (db\<lparr>config := Some (the_config db)\<rparr>)
             (no_one_fields y m
                \<lparr>json_not_participated = not_participated (fst (eligibility db)),
                 json_participated = map (participated_entry lg db) (snd (eligibility db)),
                 json_selected = None, json_random_pool = [],
                 json_note = Some ''No user's loan_request_amount fits within saghat_balance''\<rparr>)"
  using assms by (simp add: run_unfold scoring_closed)

lemma run_loans_unchanged_on_error:
  "run_loan_assignment lg env db y m = (db', Inl e) \<Longrightarrow> loans db' = loans db"
  by (drule run_error_state) simp

lemma run_taken:
  assumes "period_taken db y m"
  shows "(\<exists>e. snd (run_loan_assignment lg env db y m) = Inl e)
         \<and> fst (run_loan_assignment lg env db y m) = db\<lparr>config := Some (the_config db)\<rparr>"
proof (cases "unpaid_users db y m = []")
  case True
  from run_result [OF True, of lg env] assms show ?thesis by auto
next
  case False
  then show ?thesis by (simp add: run_unpaid)
qed

lemma config_fixpoint: "config db = Some c \<Longrightarrow> db\<lparr>config := Some (the_config db)\<rparr> = db"
  by (simp add: the_config_def)

section \<open>The runs of the example states\<close>

lemmas stage_defs =
  unpaid_users_def all_users_def paid_user_ids_def period_taken_def has_active_loan_def
  exclusion_reason_def not_participated_entry_def participated_entry_def user_score_def
  the_config_def default_Config_def

lemma two_unpaid: "unpaid_users db_two 1403 1 = []"
  by (simp add: stage_defs db_two_def)

lemma two_eligibility:
  "eligibility db_two = (empty_log, users db_two)"
  by (simp add: eligibility_closed stage_defs db_two_def empty_log_def)

lemma two_scores:
  "compute_user_score lg db_two u = None"
  by (simp add: score_defs query_defs db_two_def split: option.splits)

lemma two_users:
  "users db_two =
     [\<lparr>u_id = 1, username = ''unlimited1'', balance = 300, is_main = False,
       loan_request_amount = 100, is_active = True\<rparr>,
      \<lparr>u_id = 2, username = ''unlimited2'', balance = 300, is_main = False,
       loan_request_amount = 100, is_active = True\<rparr>]"
  by (simp add: db_two_def)

lemma two_fundable:
  "fundable_scores lg db_two = map (user_score lg db_two) (users db_two)"
  by (simp add: fundable_scores_closed two_eligibility all_users_def two_users user_score_def)

lemma two_group:
  "winner_group (fundable_scores lg db_two) = map (user_score lg db_two) (users db_two)"
  unfolding two_fundable by (simp add: winner_group_def user_score_def two_scores two_users)

lemma two_winner:
  "winner_score lg env_one db_two =
     \<lparr>us_user_id = 2, us_username = ''unlimited2'', us_score = None,
      us_loan_request_amount = 100\<rparr>"
  unfolding winner_score_def two_group
  by (simp add: env_one_def user_score_def two_scores two_users)

lemma two_run:
  "run_loan_assignment lg env_one db_two 1403 1 = (db_two\<lparr>loans := [loan_two]\<rparr>, Inr loan_two)"
proof -
  have f: "fundable_scores lg db_two \<noteq> []"
    by (simp add: two_fundable two_users)
  have c: "db_two\<lparr>config := Some (the_config db_two)\<rparr> = db_two"
    by (rule config_fixpoint [of _ default_Config]) (simp add: db_two_def)
  have p: "\<not> period_taken db_two 1403 1" "loans db_two = []"
    by (simp_all add: period_taken_def db_two_def)
  have m: "min_amount_for_loan_payment (the_config db_two) = 20"
    by (simp add: the_config_def default_Config_def db_two_def)
  show ?thesis
    unfolding run_winner [OF two_unpaid f] c two_winner two_group two_eligibility m
    using p
    by (simp add: Loan_objects_create_def Let_def new_loan_id_def loan_two_def empty_log_def
        participated_entry_def user_score_def two_scores two_users env_one_def)
qed

lemma two_run_unpaid:
  "run_loan_assignment lg env db_two 1403 2 =
     (db_two, Inl (ValueError_unpaid 1403 2 [''unlimited1'', ''unlimited2'']))"
proof -
  have u: "unpaid_users db_two 1403 2 = users db_two"
    by (simp add: stage_defs db_two_def)
  have c: "db_two\<lparr>config := Some (the_config db_two)\<rparr> = db_two"
    by (rule config_fixpoint [of _ default_Config]) (simp add: db_two_def)
  have "unpaid_users db_two 1403 2 \<noteq> []" unfolding u by (simp add: two_users)
  from run_unpaid [OF this, of lg env] show ?thesis
    unfolding u c by (simp add: two_users)
qed

section \<open>Winner selection\<close>

text \<open>The winner group is the sublist of the candidates that no candidate beats: a
  candidate with the unlimited score, or with a finite score that is at least every
  other score, all of them finite.\<close>

lemma winner_group_filter:
  "winner_group fs =
     filter (\<lambda>us. \<forall>v \<in> set fs. us_score us = None
               \<or> (\<exists>a b. us_score v = Some a \<and> us_score us = Some b \<and> a \<le> b)) fs"
proof -
  let ?P = "\<lambda>us. \<forall>v \<in> set fs. us_score us = None
               \<or> (\<exists>a b. us_score v = Some a \<and> us_score us = Some b \<and> a \<le> b)"
  have "\<exists>Q. winner_group fs = filter Q fs"
    unfolding winner_group_def by (rule if_split [THEN iffD2]) blast
  then obtain Q where q: "winner_group fs = filter Q fs" ..
  have "Q us \<longleftrightarrow> ?P us" if "us \<in> set fs" for us
    using winner_group_iff [of us fs] that by (simp add: q)
  then have "filter Q fs = filter ?P fs"
    by (intro filter_cong refl)
  with q show ?thesis by simp
qed

text \<open>An eligible member has no ACTIVE loan, so the fourth condition of the score
  holds: in a run every candidate has the unlimited score, and the winner group is
  the whole list of the affordable candidates.\<close>

lemma eligible_score_None:
  assumes "u \<in> set (snd (eligibility db))"
  shows "compute_user_score lg db u = None"
proof -
  from assms have "exclusion_reason db u = None"
    by (simp add: eligibility_closed)
  then have "\<not> has_active_loan db u"
    by (simp add: exclusion_reason_def split: if_splits)
  then have "active_allocations db u = []"
    by (simp add: has_active_loan_def active_allocations_def conj_commute)
  then have "total_loan_user_get db u = 0"
    by (simp add: total_loan_user_get_spec)
  then show ?thesis
    by (simp add: compute_user_score_def split: option.splits)
qed

lemma run_group_all: "winner_group (fundable_scores lg db) = fundable_scores lg db"
proof -
  have "\<forall>us \<in> set (fundable_scores lg db). us_score us = None"
    using fundable_scores_eligible [of _ lg db] eligible_score_None [of _ db lg]
    by (fastforce simp: user_score_def)
  then show ?thesis
    by (auto simp: winner_group_def filter_id_conv)
qed

text \<open>
  C2. For every non-empty list of candidates, whatever their scores: the group the
  source selects is the winner group, that is, the candidates with the unlimited
  score when there is one and otherwise the candidates whose score is the maximum;
  it is not empty, and it is the sublist of the candidates that no candidate beats.
  For every run that reaches winner selection (every active member paid, and some
  scored candidate is affordable): the group selected from the affordable
  candidates is their winner group; the candidate drawn is a member of that group
  and is the score record of an eligible member; and, when the period has no loan
  yet, the run stores one ACTIVE loan with the winner as its member, the winner's
  requested amount as its amount, the minimum repayment of the current
  configuration, the identifiers of the whole group as random pool and the winner
  as selected. When the period already has a loan, the insert fails and nothing is
  stored.
\<close>

theorem winner_selection:
  "(fs \<noteq> [] \<longrightarrow>
       max_score_group fs = Inr (winner_group fs)
     \<and> winner_group fs \<noteq> []
     \<and> winner_group fs =
         filter (\<lambda>us. \<forall>v \<in> set fs. us_score us = None
                   \<or> (\<exists>a b. us_score v = Some a \<and> us_score us = Some b \<and> a \<le> b)) fs)
   \<and> (unpaid_users db y m = [] \<and> fundable_scores lg db \<noteq> [] \<longrightarrow>
     max_score_group (fundable_scores lg db) = Inr (winner_group (fundable_scores lg db))
   \<and> random_choice env (winner_group (fundable_scores lg db)) = Inr (winner_score lg env db)
   \<and> winner_score lg env db \<in> set (winner_group (fundable_scores lg db))
   \<and> (\<exists>u \<in> set (snd (eligibility db)). winner_score lg env db = user_score lg db u)
   \<and> (period_taken db y m \<longrightarrow>
         run_loan_assignment lg env db y m =
           (db\<lparr>config := Some (the_config db)\<rparr>, Inl IntegrityError))
   \<and> (\<not> period_taken db y m \<longrightarrow>
         (\<exists>loan doc.
            run_loan_assignment lg env db y m =
              (db\<lparr>config := Some (the_config db), loans := loans db @ [loan]\<rparr>, Inr loan)
          \<and> l_state loan = ACTIVE
          \<and> l_jalali_year loan = y \<and> l_jalali_month loan = m
          \<and> l_user_id loan = Some (us_user_id (winner_score lg env db))
          \<and> l_amount loan = Some (us_loan_request_amount (winner_score lg env db))
          \<and> l_min_amount_for_each_payment loan
              = Some (min_amount_for_loan_payment (the_config db))
          \<and> l_log loan = Some doc
          \<and> json_random_pool doc = map us_user_id (winner_group (fundable_scores lg db))
          \<and> json_selected doc = Some (us_user_id (winner_score lg env db))
          \<and> json_not_participated doc = not_participated (fst (eligibility db))
          \<and> json_participated doc = map (participated_entry lg db) (snd (eligibility db)))))"
proof (rule conjI)
  show "fs \<noteq> [] \<longrightarrow>
       max_score_group fs = Inr (winner_group fs)
     \<and> winner_group fs \<noteq> []
     \<and> winner_group fs =
         filter (\<lambda>us. \<forall>v \<in> set fs. us_score us = None
                   \<or> (\<exists>a b. us_score v = Some a \<and> us_score us = Some b \<and> a \<le> b)) fs"
    using max_score_group_eq [of fs] winner_group_nonempty [of fs] winner_group_filter [of fs]
    by (intro impI conjI)
next
  show "unpaid_users db y m = [] \<and> fundable_scores lg db \<noteq> [] \<longrightarrow>
     max_score_group (fundable_scores lg db) = Inr (winner_group (fundable_scores lg db))
   \<and> random_choice env (winner_group (fundable_scores lg db)) = Inr (winner_score lg env db)
   \<and> winner_score lg env db \<in> set (winner_group (fundable_scores lg db))
   \<and> (\<exists>u \<in> set (snd (eligibility db)). winner_score lg env db = user_score lg db u)
   \<and> (period_taken db y m \<longrightarrow>
         run_loan_assignment lg env db y m =
           (db\<lparr>config := Some (the_config db)\<rparr>, Inl IntegrityError))
   \<and> (\<not> period_taken db y m \<longrightarrow>
         (\<exists>loan doc.
            run_loan_assignment lg env db y m =
              (db\<lparr>config := Some (the_config db), loans := loans db @ [loan]\<rparr>, Inr loan)
          \<and> l_state loan = ACTIVE
          \<and> l_jalali_year loan = y \<and> l_jalali_month loan = m
          \<and> l_user_id loan = Some (us_user_id (winner_score lg env db))
          \<and> l_amount loan = Some (us_loan_request_amount (winner_score lg env db))
          \<and> l_min_amount_for_each_payment loan
              = Some (min_amount_for_loan_payment (the_config db))
          \<and> l_log loan = Some doc
          \<and> json_random_pool doc = map us_user_id (winner_group (fundable_scores lg db))
          \<and> json_selected doc = Some (us_user_id (winner_score lg env db))
          \<and> json_not_participated doc = not_participated (fst (eligibility db))
          \<and> json_participated doc = map (participated_entry lg db) (snd (eligibility db))))"
  proof (intro impI, elim conjE)
  assume u: "unpaid_users db y m = []" and f: "fundable_scores lg db \<noteq> []"
  let ?g = "winner_group (fundable_scores lg db)"
  let ?w = "winner_score lg env db"
  have g: "?g \<noteq> []" using f by (rule winner_group_nonempty)
  have 1: "max_score_group (fundable_scores lg db) = Inr ?g"
    using f by (rule max_score_group_eq)
  have 2: "random_choice env ?g = Inr ?w"
    using g by (simp add: random_choice_nonempty winner_score_def)
  have 3: "?w \<in> set ?g" using f by (rule winner_score_in_group)
  have 4: "\<exists>u \<in> set (snd (eligibility db)). ?w = user_score lg db u"
    using 3 winner_group_subset fundable_scores_eligible by blast
  note r = run_winner [OF u f, of env]
  have 5: "period_taken db y m \<longrightarrow>
         run_loan_assignment lg env db y m =
           (db\<lparr>config := Some (the_config db)\<rparr>, Inl IntegrityError)"
    unfolding r by (simp add: Loan_objects_create_def)
  have 6: "\<not> period_taken db y m \<longrightarrow>
         (\<exists>loan doc.
            run_loan_assignment lg env db y m =
              (db\<lparr>config := Some (the_config db), loans := loans db @ [loan]\<rparr>, Inr loan)
          \<and> l_state loan = ACTIVE
          \<and> l_jalali_year loan = y \<and> l_jalali_month loan = m
          \<and> l_user_id loan = Some (us_user_id ?w)
          \<and> l_amount loan = Some (us_loan_request_amount ?w)
          \<and> l_min_amount_for_each_payment loan
              = Some (min_amount_for_loan_payment (the_config db))
          \<and> l_log loan = Some doc
          \<and> json_random_pool doc = map us_user_id ?g
          \<and> json_selected doc = Some (us_user_id ?w)
          \<and> json_not_participated doc = not_participated (fst (eligibility db))
          \<and> json_participated doc = map (participated_entry lg db) (snd (eligibility db)))"
    unfolding r by (simp add: Loan_objects_create_def Let_def)
  from 1 2 3 4 5 6 show
    "max_score_group (fundable_scores lg db) = Inr ?g
   \<and> random_choice env ?g = Inr ?w
   \<and> ?w \<in> set ?g
   \<and> (\<exists>u \<in> set (snd (eligibility db)). ?w = user_score lg db u)
   \<and> (period_taken db y m \<longrightarrow>
         run_loan_assignment lg env db y m =
           (db\<lparr>config := Some (the_config db)\<rparr>, Inl IntegrityError))
   \<and> (\<not> period_taken db y m \<longrightarrow>
         (\<exists>loan doc.
            run_loan_assignment lg env db y m =
              (db\<lparr>config := Some (the_config db), loans := loans db @ [loan]\<rparr>, Inr loan)
          \<and> l_state loan = ACTIVE
          \<and> l_jalali_year loan = y \<and> l_jalali_month loan = m
          \<and> l_user_id loan = Some (us_user_id ?w)
          \<and> l_amount loan = Some (us_loan_request_amount ?w)
          \<and> l_min_amount_for_each_payment loan
              = Some (min_amount_for_loan_payment (the_config db))
          \<and> l_log loan = Some doc
          \<and> json_random_pool doc = map us_user_id ?g
          \<and> json_selected doc = Some (us_user_id ?w)
          \<and> json_not_participated doc = not_participated (fst (eligibility db))
          \<and> json_participated doc = map (participated_entry lg db) (snd (eligibility db))))"
    by (intro conjI)
  qed
qed

text \<open>
  The theorem at two lists of candidates and at one run. From the finite scores 1,
  2, 2 the source selects the two candidates of score 2; from the scores 3,
  unlimited, 2, unlimited it selects the two unlimited ones. In the fund of the two
  members without history both have the unlimited score, the pool is both, and the
  draw 1 selects the second.
\<close>

theorem winner_selection_witness:
  "max_score_group [cand 1 (Some 1), cand 2 (Some 2), cand 3 (Some 2)]
     = Inr [cand 2 (Some 2), cand 3 (Some 2)]
   \<and> max_score_group [cand 1 (Some 3), cand 2 None, cand 3 (Some 2), cand 4 None]
     = Inr [cand 2 None, cand 4 None]
   \<and> unpaid_users db_two 1403 1 = [] \<and> fundable_scores ln db_two \<noteq> []
   \<and> \<not> period_taken db_two 1403 1
   \<and> (\<exists>loan. run_loan_assignment ln env_one db_two 1403 1 = (db_two\<lparr>loans := [loan]\<rparr>, Inr loan)
        \<and> l_state loan = ACTIVE \<and> l_user_id loan = Some 2 \<and> l_amount loan = Some 100
        \<and> l_min_amount_for_each_payment loan = Some 20
        \<and> json_random_pool (the (l_log loan)) = [1, 2]
        \<and> json_selected (the (l_log loan)) = Some 2)"
proof -
  let ?fin = "[cand 1 (Some 1), cand 2 (Some 2), cand 3 (Some 2)]"
  let ?mix = "[cand 1 (Some 3), cand 2 None, cand 3 (Some 2), cand 4 None]"
  have "max_score_group ?fin =
      Inr (filter (\<lambda>us. \<forall>v \<in> set ?fin. us_score us = None
                   \<or> (\<exists>a b. us_score v = Some a \<and> us_score us = Some b \<and> a \<le> b)) ?fin)"
    using winner_selection [where fs = ?fin] by simp
  then have a: "max_score_group ?fin = Inr [cand 2 (Some 2), cand 3 (Some 2)]"
    by (simp add: cand_def)
  have "max_score_group ?mix =
      Inr (filter (\<lambda>us. \<forall>v \<in> set ?mix. us_score us = None
                   \<or> (\<exists>a b. us_score v = Some a \<and> us_score us = Some b \<and> a \<le> b)) ?mix)"
    using winner_selection [where fs = ?mix] by simp
  then have b: "max_score_group ?mix = Inr [cand 2 None, cand 4 None]"
    by (simp add: cand_def)
  have f: "fundable_scores ln db_two \<noteq> []"
    by (simp add: two_fundable two_users)
  have p: "\<not> period_taken db_two 1403 1" by (simp add: period_taken_def db_two_def)
  have c: "db_two\<lparr>config := Some (the_config db_two)\<rparr> = db_two"
    by (rule config_fixpoint [of _ default_Config]) (simp add: db_two_def)
  have l: "loans db_two = []" by (simp add: db_two_def)
  have m: "min_amount_for_loan_payment (the_config db_two) = 20"
    by (simp add: the_config_def default_Config_def db_two_def)
  have g: "map us_user_id (winner_group (fundable_scores ln db_two)) = [1, 2]"
    by (simp add: two_group user_score_def two_users)
  from winner_selection [where db = db_two and y = 1403 and m = 1 and lg = ln and env = env_one]
    two_unpaid f p
  obtain loan doc where
    "run_loan_assignment ln env_one db_two 1403 1 =
       (db_two\<lparr>config := Some (the_config db_two), loans := loans db_two @ [loan]\<rparr>, Inr loan)"
    "l_state loan = ACTIVE"
    "l_user_id loan = Some (us_user_id (winner_score ln env_one db_two))"
    "l_amount loan = Some (us_loan_request_amount (winner_score ln env_one db_two))"
    "l_min_amount_for_each_payment loan = Some (min_amount_for_loan_payment (the_config db_two))"
    "l_log loan = Some doc"
    "json_random_pool doc = map us_user_id (winner_group (fundable_scores ln db_two))"
    "json_selected doc = Some (us_user_id (winner_score ln env_one db_two))"
    by blast
  then have "run_loan_assignment ln env_one db_two 1403 1 = (db_two\<lparr>loans := [loan]\<rparr>, Inr loan)
        \<and> l_state loan = ACTIVE \<and> l_user_id loan = Some 2 \<and> l_amount loan = Some 100
        \<and> l_min_amount_for_each_payment loan = Some 20
        \<and> json_random_pool (the (l_log loan)) = [1, 2]
        \<and> json_selected (the (l_log loan)) = Some 2"
    by (simp add: c l m g two_winner)
  with a b two_unpaid f p show ?thesis by blast
qed

section \<open>Eligibility\<close>

text \<open>
  C3. The eligibility loop of the source is the filter of the specification: every
  active member is tested for (a) not main and request above balance, (b) an active
  loan, (c) a request that is not positive, in this order; a member failing one of
  them gets exactly one entry in \<open>not_participated\<close>, with the first reason that
  fails, and the others form the eligible list. When the eligible list is empty
  (and every active member paid), the run stores a \<open>NO_ONE\<close> loan whose log has the
  entries of all the excluded members and no participant; when the period already
  has a loan, the insert fails instead.
\<close>

theorem eligibility_filter:
  "eligibility db =
     (empty_log\<lparr>not_participated :=
         map (not_participated_entry db)
           (filter (\<lambda>u. exclusion_reason db u \<noteq> None) (all_users db))\<rparr>,
      filter (\<lambda>u. exclusion_reason db u = None) (all_users db))
   \<and> length (not_participated (fst (eligibility db))) + length (snd (eligibility db))
       = length (all_users db)
   \<and> (unpaid_users db y m = [] \<and> snd (eligibility db) = [] \<longrightarrow>
        (period_taken db y m \<longrightarrow>
           run_loan_assignment lg env db y m =
             (db\<lparr>config := Some (the_config db)\<rparr>, Inl IntegrityError))
      \<and> (\<not> period_taken db y m \<longrightarrow>
           (\<exists>loan.
              run_loan_assignment lg env db y m =
                (db\<lparr>config := Some (the_config db), loans := loans db @ [loan]\<rparr>, Inr loan)
            \<and> l_state loan = NO_ONE \<and> l_user_id loan = None \<and> l_amount loan = None
            \<and> l_jalali_year loan = y \<and> l_jalali_month loan = m
            \<and> l_log loan = Some
                 \<lparr>json_not_participated = map (not_participated_entry db) (all_users db),
                  json_participated = [], json_selected = None, json_random_pool = [],
                  json_note = None\<rparr>)))"
proof (intro conjI impI; (elim conjE)?)
  show "eligibility db =
     (empty_log\<lparr>not_participated :=
         map (not_participated_entry db)
           (filter (\<lambda>u. exclusion_reason db u \<noteq> None) (all_users db))\<rparr>,
      filter (\<lambda>u. exclusion_reason db u = None) (all_users db))"
    by (rule eligibility_closed)
  show "length (not_participated (fst (eligibility db))) + length (snd (eligibility db))
       = length (all_users db)"
    using sum_length_filter_compl [of "\<lambda>u. exclusion_reason db u \<noteq> None" "all_users db"]
    by (simp add: eligibility_closed)
next
  assume "unpaid_users db y m = []" "snd (eligibility db) = []" "period_taken db y m"
  then show "run_loan_assignment lg env db y m =
             (db\<lparr>config := Some (the_config db)\<rparr>, Inl IntegrityError)"
    by (simp add: run_no_eligible Loan_objects_create_def no_one_fields_def)
next
  assume "unpaid_users db y m = []" "snd (eligibility db) = []" "\<not> period_taken db y m"
  then show "\<exists>loan.
              run_loan_assignment lg env db y m =
                (db\<lparr>config := Some (the_config db), loans := loans db @ [loan]\<rparr>, Inr loan)
            \<and> l_state loan = NO_ONE \<and> l_user_id loan = None \<and> l_amount loan = None
            \<and> l_jalali_year loan = y \<and> l_jalali_month loan = m
            \<and> l_log loan = Some
                 \<lparr>json_not_participated = map (not_participated_entry db) (all_users db),
                  json_participated = [], json_selected = None, json_random_pool = [],
                  json_note = None\<rparr>"
    by (simp add: run_no_eligible Loan_objects_create_def no_one_fields_def Let_def)
qed

text \<open>The theorem at the three excluded members: one reason each, in the order of the
  members.\<close>

theorem eligibility_filter_witness:
  "unpaid_users db_excluded 1403 3 = [] \<and> snd (eligibility db_excluded) = []
   \<and> \<not> period_taken db_excluded 1403 3
   \<and> (\<exists>loan. run_loan_assignment ln env_one db_excluded 1403 3 =
                 (db_excluded\<lparr>loans := loans db_excluded @ [loan]\<rparr>, Inr loan)
        \<and> l_state loan = NO_ONE
        \<and> map np_reason (json_not_participated (the (l_log loan)))
            = [HasActiveLoan, OptedOut, RequestExceedsBalance 200 50]
        \<and> json_participated (the (l_log loan)) = [])"
proof -
  have u: "unpaid_users db_excluded 1403 3 = []"
    by (simp add: stage_defs db_excluded_def)
  have e: "snd (eligibility db_excluded) = []"
    by (simp add: eligibility_closed stage_defs db_excluded_def)
  have p: "\<not> period_taken db_excluded 1403 3"
    by (simp add: period_taken_def db_excluded_def)
  have c: "db_excluded\<lparr>config := Some (the_config db_excluded)\<rparr> = db_excluded"
    by (rule config_fixpoint [of _ default_Config]) (simp add: db_excluded_def)
  have r: "map np_reason (map (not_participated_entry db_excluded) (all_users db_excluded))
            = [HasActiveLoan, OptedOut, RequestExceedsBalance 200 50]"
    by (simp add: stage_defs db_excluded_def)
  have "\<exists>loan.
       run_loan_assignment ln env_one db_excluded 1403 3 =
         (db_excluded\<lparr>config := Some (the_config db_excluded),
                       loans := loans db_excluded @ [loan]\<rparr>, Inr loan)
     \<and> l_state loan = NO_ONE \<and> l_user_id loan = None \<and> l_amount loan = None
     \<and> l_jalali_year loan = 1403 \<and> l_jalali_month loan = 3
     \<and> l_log loan = Some
         \<lparr>json_not_participated = map (not_participated_entry db_excluded) (all_users db_excluded),
          json_participated = [], json_selected = None, json_random_pool = [],
          json_note = None\<rparr>"
    using eligibility_filter [of db_excluded 1403 3 ln env_one] u e p by simp
  then obtain loan where
    l: "run_loan_assignment ln env_one db_excluded 1403 3 =
       (db_excluded\<lparr>config := Some (the_config db_excluded),
                     loans := loans db_excluded @ [loan]\<rparr>, Inr loan)"
    "l_state loan = NO_ONE"
    "l_log loan = Some
       \<lparr>json_not_participated = map (not_participated_entry db_excluded) (all_users db_excluded),
        json_participated = [], json_selected = None, json_random_pool = [],
        json_note = None\<rparr>"
    by (elim exE conjE)
  show ?thesis
    using u e p l r by (intro conjI exI [of _ loan]) (simp_all add: c)
qed

section \<open>Affordability\<close>

text \<open>
  C4. The affordable candidates are exactly the scored members whose request is at
  most the fund balance, the sum of the balances of the active members. Every
  eligible member is scored and has its entry in \<open>participated\<close>, whatever its
  request. When no scored member is affordable, the run stores a \<open>NO_ONE\<close> loan with
  both lists and the note that no request fits the fund balance; when the period
  already has a loan, the insert fails instead.
\<close>

theorem affordability_filter:
  "fundable_scores lg db =
     filter (\<lambda>us. us_loan_request_amount us \<le> sum_list (map balance (all_users db)))
       (snd (scoring lg db))
   \<and> snd (scoring lg db) = map (user_score lg db) (snd (eligibility db))
   \<and> participated (fst (scoring lg db)) = map (participated_entry lg db) (snd (eligibility db))
   \<and> (unpaid_users db y m = [] \<and> snd (eligibility db) \<noteq> [] \<and> fundable_scores lg db = [] \<longrightarrow>
        (period_taken db y m \<longrightarrow>
           run_loan_assignment lg env db y m =
             (db\<lparr>config := Some (the_config db)\<rparr>, Inl IntegrityError))
      \<and> (\<not> period_taken db y m \<longrightarrow>
           (\<exists>loan.
              run_loan_assignment lg env db y m =
                (db\<lparr>config := Some (the_config db), loans := loans db @ [loan]\<rparr>, Inr loan)
            \<and> l_state loan = NO_ONE \<and> l_user_id loan = None \<and> l_amount loan = None
            \<and> l_jalali_year loan = y \<and> l_jalali_month loan = m
            \<and> l_log loan = Some
                 \<lparr>json_not_participated = not_participated (fst (eligibility db)),
                  json_participated = map (participated_entry lg db) (snd (eligibility db)),
                  json_selected = None, json_random_pool = [],
                  json_note =
                    Some ''No user's loan_request_amount fits within saghat_balance''\<rparr>)))"
proof (intro conjI impI; (elim conjE)?)
  show "fundable_scores lg db =
     filter (\<lambda>us. us_loan_request_amount us \<le> sum_list (map balance (all_users db)))
       (snd (scoring lg db))"
    by (simp add: fundable_scores_def fundable_def saghat_balance_sum)
  show "snd (scoring lg db) = map (user_score lg db) (snd (eligibility db))"
    by (simp add: scoring_closed)
  show "participated (fst (scoring lg db)) = map (participated_entry lg db) (snd (eligibility db))"
    by (simp add: scoring_closed)
next
  assume "unpaid_users db y m = []" "snd (eligibility db) \<noteq> []" "fundable_scores lg db = []"
    "period_taken db y m"
  then show "run_loan_assignment lg env db y m =
             (db\<lparr>config := Some (the_config db)\<rparr>, Inl IntegrityError)"
    by (simp add: run_no_fundable Loan_objects_create_def no_one_fields_def)
next
  assume "unpaid_users db y m = []" "snd (eligibility db) \<noteq> []" "fundable_scores lg db = []"
    "\<not> period_taken db y m"
  then show "\<exists>loan.
              run_loan_assignment lg env db y m =
                (db\<lparr>config := Some (the_config db), loans := loans db @ [loan]\<rparr>, Inr loan)
            \<and> l_state loan = NO_ONE \<and> l_user_id loan = None \<and> l_amount loan = None
            \<and> l_jalali_year loan = y \<and> l_jalali_month loan = m
            \<and> l_log loan = Some
                 \<lparr>json_not_participated = not_participated (fst (eligibility db)),
                  json_participated = map (participated_entry lg db) (snd (eligibility db)),
                  json_selected = None, json_random_pool = [],
                  json_note =
                    Some ''No user's loan_request_amount fits within saghat_balance''\<rparr>"
    by (simp add: run_no_fundable Loan_objects_create_def no_one_fields_def Let_def)
qed

text \<open>The theorem at the main member who requests 11 from a fund of 10.\<close>

theorem affordability_filter_witness:
  "unpaid_users db_toobig 1403 7 = [] \<and> snd (eligibility db_toobig) \<noteq> []
   \<and> fundable_scores ln db_toobig = [] \<and> \<not> period_taken db_toobig 1403 7
   \<and> sum_list (map balance (all_users db_toobig)) = 10
   \<and> (\<exists>loan. run_loan_assignment ln env_one db_toobig 1403 7 =
                 (db_toobig\<lparr>loans := [loan]\<rparr>, Inr loan)
        \<and> l_state loan = NO_ONE
        \<and> map pe_user_id (json_participated (the (l_log loan))) = [1]
        \<and> json_note (the (l_log loan))
            = Some ''No user's loan_request_amount fits within saghat_balance'')"
proof -
  have u: "unpaid_users db_toobig 1403 7 = []"
    by (simp add: stage_defs db_toobig_def)
  have e: "snd (eligibility db_toobig) = users db_toobig"
    by (simp add: eligibility_closed stage_defs db_toobig_def)
  have us: "users db_toobig =
      [\<lparr>u_id = 1, username = ''toobig'', balance = 10, is_main = True,
        loan_request_amount = 11, is_active = True\<rparr>]"
    by (simp add: db_toobig_def)
  have ne: "snd (eligibility db_toobig) \<noteq> []" unfolding e us by simp
  have b: "sum_list (map balance (all_users db_toobig)) = 10"
    by (simp add: all_users_def us)
  have f: "fundable_scores ln db_toobig = []"
    by (simp add: fundable_scores_closed e b) (simp add: us user_score_def)
  have p: "\<not> period_taken db_toobig 1403 7" "loans db_toobig = []"
    by (simp_all add: period_taken_def db_toobig_def)
  have c: "db_toobig\<lparr>config := Some (the_config db_toobig)\<rparr> = db_toobig"
    by (rule config_fixpoint [of _ default_Config]) (simp add: db_toobig_def)
  have "\<exists>loan.
       run_loan_assignment ln env_one db_toobig 1403 7 =
         (db_toobig\<lparr>config := Some (the_config db_toobig),
                     loans := loans db_toobig @ [loan]\<rparr>, Inr loan)
     \<and> l_state loan = NO_ONE \<and> l_user_id loan = None \<and> l_amount loan = None
     \<and> l_jalali_year loan = 1403 \<and> l_jalali_month loan = 7
     \<and> l_log loan = Some
         \<lparr>json_not_participated = not_participated (fst (eligibility db_toobig)),
          json_participated =
            map (participated_entry ln db_toobig) (snd (eligibility db_toobig)),
          json_selected = None, json_random_pool = [],
          json_note = Some ''No user's loan_request_amount fits within saghat_balance''\<rparr>"
    using affordability_filter [of ln db_toobig 1403 7 env_one] u ne f p(1)
    by simp
  then obtain loan where
    l: "run_loan_assignment ln env_one db_toobig 1403 7 =
       (db_toobig\<lparr>config := Some (the_config db_toobig),
                   loans := loans db_toobig @ [loan]\<rparr>, Inr loan)"
    "l_state loan = NO_ONE"
    "l_log loan = Some
       \<lparr>json_not_participated = not_participated (fst (eligibility db_toobig)),
        json_participated = map (participated_entry ln db_toobig) (snd (eligibility db_toobig)),
        json_selected = None, json_random_pool = [],
        json_note = Some ''No user's loan_request_amount fits within saghat_balance''\<rparr>"
    by (elim exE conjE)
  show ?thesis
    using u ne f p(1) b l
    by (intro conjI exI [of _ loan]) (simp_all add: c p e us participated_entry_def)
qed

section \<open>One loan per period\<close>

text \<open>
  C5. After a run that succeeded, a second run for the same period fails with the
  integrity error and leaves the database as it is, and the period has exactly the
  one loan. More generally a run for a period that has a loan never succeeds and
  changes no loan (it fails with the integrity error when every active member
  paid), and a run keeps the periods of the stored loans distinct.
\<close>

theorem once_per_period:
  "(run_loan_assignment lg env db y m = (db', Inr loan) \<longrightarrow>
       run_loan_assignment lg env' db' y m = (db', Inl IntegrityError)
     \<and> filter (\<lambda>l. period_of l = (y, m)) (loans db') = [loan])
   \<and> (period_taken db y m \<longrightarrow>
        (\<exists>e. snd (run_loan_assignment lg env db y m) = Inl e)
      \<and> loans (fst (run_loan_assignment lg env db y m)) = loans db)
   \<and> (period_taken db y m \<and> unpaid_users db y m = [] \<longrightarrow>
        run_loan_assignment lg env db y m =
          (db\<lparr>config := Some (the_config db)\<rparr>, Inl IntegrityError))
   \<and> (distinct (map period_of (loans db)) \<longrightarrow>
        distinct (map period_of (loans (fst (run_loan_assignment lg env db y m)))))"
proof (intro conjI impI; (elim conjE)?)
  assume a: "run_loan_assignment lg env db y m = (db', Inr loan)"
  note s = run_success [OF a]
  from s have d: "db' = db\<lparr>config := Some (the_config db), loans := loans db @ [loan]\<rparr>"
    and u: "unpaid_users db y m = []" and l: "l_jalali_year loan = y" "l_jalali_month loan = m"
    and np: "\<not> period_taken db y m"
    by simp_all
  have u': "unpaid_users db' y m = []" using u unfolding d by simp
  have t': "period_taken db' y m" unfolding d using l by (simp add: period_taken_def)
  have c': "db'\<lparr>config := Some (the_config db')\<rparr> = db'" unfolding d by simp
  from run_result [OF u', of lg env'] t' c'
  show "run_loan_assignment lg env' db' y m = (db', Inl IntegrityError)" by auto
  from np have "filter (\<lambda>l. period_of l = (y, m)) (loans db) = []"
    by (auto simp: period_taken_def period_of_def filter_empty_conv)
  then show "filter (\<lambda>l. period_of l = (y, m)) (loans db') = [loan]"
    unfolding d using l by (simp add: period_of_def)
next
  assume t: "period_taken db y m"
  from run_taken [OF t, of lg env]
  show "\<exists>e. snd (run_loan_assignment lg env db y m) = Inl e"
    and "loans (fst (run_loan_assignment lg env db y m)) = loans db"
    by simp_all
next
  assume "period_taken db y m" "unpaid_users db y m = []"
  with run_result [of db y m lg env]
  show "run_loan_assignment lg env db y m =
          (db\<lparr>config := Some (the_config db)\<rparr>, Inl IntegrityError)"
    by auto
next
  assume dist: "distinct (map period_of (loans db))"
  show "distinct (map period_of (loans (fst (run_loan_assignment lg env db y m))))"
  proof (cases "run_loan_assignment lg env db y m")
    case (Pair db' r)
    show ?thesis
    proof (cases r)
      case (Inl e)
      with Pair run_loans_unchanged_on_error [of lg env db y m db' e] dist
      show ?thesis by simp
    next
      case (Inr loan)
      note s = run_success [OF Pair [unfolded Inr]]
      from s have "period_of loan \<notin> set (map period_of (loans db))"
        by (auto simp: period_taken_def period_of_def)
      with s dist Pair show ?thesis by simp
    qed
  qed
qed

text \<open>The theorem at the two members without history: the first run stores the loan,
  the second one fails.\<close>

theorem once_per_period_witness:
  "run_loan_assignment ln env_one db_two 1403 1 = (db_two\<lparr>loans := [loan_two]\<rparr>, Inr loan_two)
   \<and> run_loan_assignment ln \<lparr>now = 8, draw = 0\<rparr> (db_two\<lparr>loans := [loan_two]\<rparr>) 1403 1
       = (db_two\<lparr>loans := [loan_two]\<rparr>, Inl IntegrityError)
   \<and> filter (\<lambda>l. period_of l = (1403, 1)) (loans (db_two\<lparr>loans := [loan_two]\<rparr>)) = [loan_two]
   \<and> period_taken (db_two\<lparr>loans := [loan_two]\<rparr>) 1403 1
   \<and> distinct (map period_of (loans db_two))
   \<and> distinct (map period_of (loans (fst (run_loan_assignment ln env_one db_two 1403 1))))"
proof -
  note r = two_run [of ln]
  note t = once_per_period [of ln env_one db_two 1403 1 "db_two\<lparr>loans := [loan_two]\<rparr>" loan_two
      "\<lparr>now = 8, draw = 0\<rparr>"]
  have d: "distinct (map period_of (loans db_two))" by (simp add: db_two_def)
  have p: "period_taken (db_two\<lparr>loans := [loan_two]\<rparr>) 1403 1"
    by (simp add: period_taken_def loan_two_def)
  from t r have 1: "run_loan_assignment ln \<lparr>now = 8, draw = 0\<rparr> (db_two\<lparr>loans := [loan_two]\<rparr>) 1403 1
       = (db_two\<lparr>loans := [loan_two]\<rparr>, Inl IntegrityError)"
    and 2: "filter (\<lambda>l. period_of l = (1403, 1)) (loans (db_two\<lparr>loans := [loan_two]\<rparr>)) = [loan_two]"
    by simp_all
  from t d have 3: "distinct (map period_of (loans (fst (run_loan_assignment ln env_one db_two 1403 1))))"
    by simp
  from r 1 2 p d 3 show ?thesis by (intro conjI)
qed

section \<open>The payment check\<close>

text \<open>
  C6, as amended. When some active member has no payment for the period, the run
  fails with the error that names every such member, in the order of the members;
  it creates no loan and changes no member, payment or loan payment. The
  configuration is read before the check: when its row does not exist the run has
  written it with the defaults, and only when the row exists is the database
  unchanged.
\<close>

theorem unpaid_precondition:
  "(\<exists>u \<in> set (users db). is_active u
        \<and> \<not> (\<exists>p \<in> set (payments db).
                p_user_id p = u_id u \<and> p_jalali_year p = y \<and> p_jalali_month p = m))
   \<longrightarrow>
     run_loan_assignment lg env db y m =
       (db\<lparr>config := Some (the_config db)\<rparr>,
        Inl (ValueError_unpaid y m
               (map username
                  (filter (\<lambda>u. is_active u
                      \<and> \<not> (\<exists>p \<in> set (payments db).
                             p_user_id p = u_id u \<and> p_jalali_year p = y \<and> p_jalali_month p = m))
                     (users db)))))
   \<and> loans (fst (run_loan_assignment lg env db y m)) = loans db
   \<and> users (fst (run_loan_assignment lg env db y m)) = users db
   \<and> payments (fst (run_loan_assignment lg env db y m)) = payments db
   \<and> loan_payments (fst (run_loan_assignment lg env db y m)) = loan_payments db
   \<and> (config db \<noteq> None \<longrightarrow> fst (run_loan_assignment lg env db y m) = db)"
proof (intro impI)
  let ?unpaid = "\<lambda>u. is_active u
        \<and> \<not> (\<exists>p \<in> set (payments db).
                p_user_id p = u_id u \<and> p_jalali_year p = y \<and> p_jalali_month p = m)"
  assume a: "\<exists>u \<in> set (users db). ?unpaid u"
  have h: "u_id u \<notin> paid_user_ids db y m \<longleftrightarrow>
          \<not> (\<exists>p \<in> set (payments db).
                p_user_id p = u_id u \<and> p_jalali_year p = y \<and> p_jalali_month p = m)" for u
    unfolding paid_user_ids_def by force
  have e: "unpaid_users db y m = filter ?unpaid (users db)"
    by (simp only: unpaid_users_def all_users_def filter_filter h)
  from a have ne: "unpaid_users db y m \<noteq> []"
    unfolding e by (auto simp: filter_empty_conv)
  note r = run_unpaid [OF ne, of lg env, unfolded e]
  show "run_loan_assignment lg env db y m =
       (db\<lparr>config := Some (the_config db)\<rparr>,
        Inl (ValueError_unpaid y m (map username (filter ?unpaid (users db)))))
   \<and> loans (fst (run_loan_assignment lg env db y m)) = loans db
   \<and> users (fst (run_loan_assignment lg env db y m)) = users db
   \<and> payments (fst (run_loan_assignment lg env db y m)) = payments db
   \<and> loan_payments (fst (run_loan_assignment lg env db y m)) = loan_payments db
   \<and> (config db \<noteq> None \<longrightarrow> fst (run_loan_assignment lg env db y m) = db)"
    unfolding r by (auto simp: config_fixpoint)
qed

text \<open>The theorem at the two members, for a month that neither paid.\<close>

theorem unpaid_precondition_witness:
  "(\<exists>u \<in> set (users db_two). is_active u
        \<and> \<not> (\<exists>p \<in> set (payments db_two).
                p_user_id p = u_id u \<and> p_jalali_year p = 1403 \<and> p_jalali_month p = 2))
   \<and> config db_two \<noteq> None
   \<and> fst (run_loan_assignment ln env_one db_two 1403 2) = db_two
   \<and> run_loan_assignment ln env_one db_two 1403 2 =
       (db_two, Inl (ValueError_unpaid 1403 2 [''unlimited1'', ''unlimited2'']))"
proof -
  have h: "\<exists>u \<in> set (users db_two). is_active u
        \<and> \<not> (\<exists>p \<in> set (payments db_two).
                p_user_id p = u_id u \<and> p_jalali_year p = 1403 \<and> p_jalali_month p = 2)"
    by (simp add: db_two_def)
  have c: "config db_two \<noteq> None" by (simp add: db_two_def)
  have n: "map username
             (filter (\<lambda>u. is_active u
                 \<and> \<not> (\<exists>p \<in> set (payments db_two).
                        p_user_id p = u_id u \<and> p_jalali_year p = 1403 \<and> p_jalali_month p = 2))
                (users db_two)) = [''unlimited1'', ''unlimited2'']"
    by (simp add: db_two_def)
  have cf: "db_two\<lparr>config := Some (the_config db_two)\<rparr> = db_two"
    by (rule config_fixpoint [of _ default_Config]) (simp add: db_two_def)
  note t = mp [OF unpaid_precondition [of db_two 1403 2 ln env_one] h]
  note eq = t [THEN conjunct1]
  note same = t [THEN conjunct2, THEN conjunct2, THEN conjunct2, THEN conjunct2, THEN conjunct2,
      THEN mp, OF c]
  from eq have "run_loan_assignment ln env_one db_two 1403 2 =
       (db_two, Inl (ValueError_unpaid 1403 2 [''unlimited1'', ''unlimited2'']))"
    unfolding n cf .
  with h c same show ?thesis by (intro conjI)
qed

text \<open>
  The claim as first stated, that no state is modified on this path, fails where the
  configuration row does not exist: the run fails with the error and the database
  has the new row.
\<close>

theorem unpaid_precondition_counterexample:
  "(\<exists>u \<in> set (users db_unpaid). is_active u
        \<and> \<not> (\<exists>p \<in> set (payments db_unpaid).
                p_user_id p = u_id u \<and> p_jalali_year p = 1403 \<and> p_jalali_month p = 2))
   \<and> run_loan_assignment ln env_one db_unpaid 1403 2 =
       (db_unpaid\<lparr>config := Some default_Config\<rparr>, Inl (ValueError_unpaid 1403 2 [''unpaid'']))
   \<and> fst (run_loan_assignment ln env_one db_unpaid 1403 2) \<noteq> db_unpaid"
proof -
  have u: "unpaid_users db_unpaid 1403 2 = users db_unpaid"
    by (simp add: stage_defs db_unpaid_def)
  have ne: "unpaid_users db_unpaid 1403 2 \<noteq> []"
    unfolding u by (simp add: db_unpaid_def)
  have r: "run_loan_assignment ln env_one db_unpaid 1403 2 =
       (db_unpaid\<lparr>config := Some default_Config\<rparr>, Inl (ValueError_unpaid 1403 2 [''unpaid'']))"
    unfolding run_unpaid [OF ne] u by (simp add: the_config_def db_unpaid_def)
  have "config (db_unpaid\<lparr>config := Some default_Config\<rparr>) \<noteq> config db_unpaid"
    by (simp add: db_unpaid_def)
  then have d: "db_unpaid\<lparr>config := Some default_Config\<rparr> \<noteq> db_unpaid"
    by metis
  show ?thesis
    unfolding r using d by (simp add: db_unpaid_def)
qed

section \<open>Monotonicity of the score\<close>

text \<open>The queries read the member's key only.\<close>

lemma queries_by_id:
  assumes "u_id u = u_id v"
  shows "user_payments db u = user_payments db v"
    and "last_payment db u = last_payment db v"
    and "user_loan_payments db u = user_loan_payments db v"
    and "total_user_loan_payments db u = total_user_loan_payments db v"
    and "user_active_loans db u = user_active_loans db v"
    and "total_loan_amount db u = total_loan_amount db v"
    and "total_loan_user_get db u = total_loan_user_get db v"
    and "previous_loan db u = previous_loan db v"
    and "total_month_no_loan db u = total_month_no_loan db v"
    and "log_previous_loan lg db u = log_previous_loan lg db v"
proof -
  show 1: "user_payments db u = user_payments db v"
    by (simp add: user_payments_def assms)
  show 2: "user_loan_payments db u = user_loan_payments db v"
    by (simp add: user_loan_payments_def assms cong: if_cong)
  show 3: "user_active_loans db u = user_active_loans db v"
    by (simp add: user_active_loans_def assms)
  show "last_payment db u = last_payment db v"
    by (simp add: last_payment_def 1)
  show "total_user_loan_payments db u = total_user_loan_payments db v"
    by (simp add: total_user_loan_payments_def 2)
  show "total_loan_amount db u = total_loan_amount db v"
    by (simp add: total_loan_amount_def 3)
  show "total_loan_user_get db u = total_loan_user_get db v"
    by (simp add: total_loan_user_get_def 3)
  show 4: "previous_loan db u = previous_loan db v"
    by (simp add: previous_loan_def 3)
  show "total_month_no_loan db u = total_month_no_loan db v"
    by (simp add: total_month_no_loan_def total_payments_count_def months_with_loan_payment_def 1 2)
  show "log_previous_loan lg db u = log_previous_loan lg db v"
    by (simp add: log_previous_loan_def 4)
qed

lemmas queries_balance [simp] = queries_by_id [of "u\<lparr>balance := b\<rparr>" u, simplified] for u b

lemmas queries_request [simp] =
  queries_by_id [of "u\<lparr>loan_request_amount := r\<rparr>" u, simplified] for u r

lemma denominator_balance [simp]:
  "denominator lg db (u\<lparr>balance := b\<rparr>) a = denominator lg db u a"
  by (simp add: denominator_def)

lemma numerator_request [simp]:
  "numerator lg db (u\<lparr>loan_request_amount := r\<rparr>) = numerator lg db u"
  by (simp add: numerator_def log_balance_def)

lemma log_previous_loan_nonneg: "0 \<le> log_previous_loan lg db u"
  by (simp add: log_previous_loan_def split: option.splits)

lemma log_balance_nonneg: "0 \<le> log_balance lg u"
  by (simp add: log_balance_def)

lemma numerator_pos_iff:
  "0 < numerator lg db u \<longleftrightarrow>
     0 < log_previous_loan lg db u \<and> 0 < log_balance lg u \<and> 0 < total_month_no_loan db u"
  using log_previous_loan_nonneg [of lg db u] log_balance_nonneg [of lg u]
  by (auto simp: numerator_def zero_less_mult_iff)

text \<open>A positive score: every guard passed, and the score is the quotient of the
  numerator by the denominator.\<close>

lemma score_pos_iff:
  "(compute_user_score lg db u = Some s \<and> 0 < s) \<longleftrightarrow>
     (\<exists>p. last_payment db u = Some p \<and> 0 < p_amount p
        \<and> 0 < total_user_loan_payments db u
        \<and> 0 < total_loan_amount db u \<and> 0 < lg (total_loan_amount db u)
        \<and> 0 < total_loan_user_get db u
        \<and> 0 < loan_request_amount u \<and> 0 < lg (loan_request_amount u)
        \<and> 0 < numerator lg db u
        \<and> s = numerator lg db u / denominator lg db u (p_amount p))"
proof (cases "last_payment db u")
  case None
  then show ?thesis by (simp add: compute_user_score_def)
next
  case (Some p)
  have d: "0 < p_amount p \<Longrightarrow> 0 < total_user_loan_payments db u
      \<Longrightarrow> 0 < lg (total_loan_amount db u) \<Longrightarrow> 0 < total_loan_user_get db u
      \<Longrightarrow> 0 < lg (loan_request_amount u) \<Longrightarrow> 0 < denominator lg db u (p_amount p)"
    by (rule denominator_pos)
  show ?thesis
    unfolding Some compute_user_score_def option.case
    using d by (auto simp: not_le)
qed

lemma score_balance_increases:
  assumes "compute_user_score lg db (u\<lparr>balance := b1\<rparr>) = Some s1" and "0 < s1"
    and "b1 < b2" and "lg b1 < lg b2"
  shows "\<exists>s2. compute_user_score lg db (u\<lparr>balance := b2\<rparr>) = Some s2 \<and> s1 < s2"
proof -
  let ?u1 = "u\<lparr>balance := b1\<rparr>" and ?u2 = "u\<lparr>balance := b2\<rparr>"
  from assms(1,2) obtain p where p: "last_payment db u = Some p" "0 < p_amount p"
    "0 < total_user_loan_payments db u" "0 < total_loan_amount db u"
    "0 < lg (total_loan_amount db u)" "0 < total_loan_user_get db u"
    "0 < loan_request_amount u" "0 < lg (loan_request_amount u)"
    and n1: "0 < numerator lg db ?u1"
    and s1: "s1 = numerator lg db ?u1 / denominator lg db u (p_amount p)"
    using score_pos_iff [of lg db ?u1 s1] by auto
  have d: "0 < denominator lg db u (p_amount p)"
    using p by (intro denominator_pos)
  from n1 have f: "0 < log_previous_loan lg db u" "0 < log_balance lg ?u1"
    "0 < total_month_no_loan db u"
    by (simp_all add: numerator_pos_iff)
  from f(2) have b1: "0 < b1" "0 < lg b1" "log_balance lg ?u1 = lg b1"
    by (simp_all add: log_balance_def split: if_splits)
  with assms(3,4) have b2: "log_balance lg ?u2 = lg b2"
    by (simp add: log_balance_def)
  have "log_previous_loan lg db u * lg b1 < log_previous_loan lg db u * lg b2"
    using f(1) assms(4) by simp
  then have lt: "numerator lg db ?u1 < numerator lg db ?u2"
    unfolding numerator_def b1 b2 queries_balance
    using f(3) by (intro mult_strict_right_mono) simp_all
  with n1 have n2: "0 < numerator lg db ?u2" by simp
  have "compute_user_score lg db ?u2 =
          Some (numerator lg db ?u2 / denominator lg db u (p_amount p))
        \<and> 0 < numerator lg db ?u2 / denominator lg db u (p_amount p)"
    using p n2 by (subst score_pos_iff) simp
  moreover have "s1 < numerator lg db ?u2 / denominator lg db u (p_amount p)"
    unfolding s1 using lt d by (simp add: divide_strict_right_mono)
  ultimately show ?thesis by blast
qed

lemma score_request_decreases:
  assumes "compute_user_score lg db (u\<lparr>loan_request_amount := r1\<rparr>) = Some s1" and "0 < s1"
    and "r1 < r2" and "lg r1 < lg r2"
  shows "\<exists>s2. compute_user_score lg db (u\<lparr>loan_request_amount := r2\<rparr>) = Some s2
            \<and> 0 < s2 \<and> s2 < s1"
proof -
  let ?u1 = "u\<lparr>loan_request_amount := r1\<rparr>" and ?u2 = "u\<lparr>loan_request_amount := r2\<rparr>"
  from assms(1,2) obtain p where p: "last_payment db u = Some p" "0 < p_amount p"
    "0 < total_user_loan_payments db u" "0 < total_loan_amount db u"
    "0 < lg (total_loan_amount db u)" "0 < total_loan_user_get db u"
    and r1: "0 < r1" "0 < lg r1"
    and n: "0 < numerator lg db u"
    and s1: "s1 = numerator lg db u / denominator lg db ?u1 (p_amount p)"
    using score_pos_iff [of lg db ?u1 s1] by auto
  from r1 assms(3,4) have r2: "0 < r2" "0 < lg r2" by simp_all
  define D where "D = p_amount p * of_nat (total_user_loan_payments db u)
      * lg (total_loan_amount db u) * of_nat (total_loan_user_get db u)"
  have D: "0 < D" unfolding D_def using p by simp
  have d1: "denominator lg db ?u1 (p_amount p) = D * lg r1"
    and d2: "denominator lg db ?u2 (p_amount p) = D * lg r2"
    by (simp_all add: denominator_def D_def)
  have dlt: "D * lg r1 < D * lg r2" using D assms(4) by simp
  have dpos: "0 < D * lg r1" using D r1 by simp
  have "compute_user_score lg db ?u2 = Some (numerator lg db u / (D * lg r2))
        \<and> 0 < numerator lg db u / (D * lg r2)"
    using p r2 n by (subst score_pos_iff) (simp add: d2)
  moreover have "numerator lg db u / (D * lg r2) < s1"
    unfolding s1 d1 using n dlt dpos by (simp add: divide_strict_left_mono)
  ultimately show ?thesis by blast
qed

lemma score_months_increase:
  assumes "compute_user_score lg db u = Some s1" and "0 < s1"
    and lp: "map_option p_amount (last_payment db' u) = map_option p_amount (last_payment db u)"
    and e: "total_user_loan_payments db' u = total_user_loan_payments db u"
      "total_loan_amount db' u = total_loan_amount db u"
      "total_loan_user_get db' u = total_loan_user_get db u"
    and pl: "map_option l_amount (previous_loan db' u) = map_option l_amount (previous_loan db u)"
    and m: "total_month_no_loan db u < total_month_no_loan db' u"
  shows "\<exists>s2. compute_user_score lg db' u = Some s2 \<and> s1 < s2"
proof -
  from assms(1,2) obtain p where p: "last_payment db u = Some p" "0 < p_amount p"
    "0 < total_user_loan_payments db u" "0 < total_loan_amount db u"
    "0 < lg (total_loan_amount db u)" "0 < total_loan_user_get db u"
    "0 < loan_request_amount u" "0 < lg (loan_request_amount u)"
    and n1: "0 < numerator lg db u"
    and s1: "s1 = numerator lg db u / denominator lg db u (p_amount p)"
    using score_pos_iff [of lg db u s1] by auto
  from lp p(1) obtain p' where p': "last_payment db' u = Some p'" "p_amount p' = p_amount p"
    by (cases "last_payment db' u") auto
  have d: "0 < denominator lg db u (p_amount p)"
    using p by (intro denominator_pos)
  have de: "denominator lg db' u (p_amount p') = denominator lg db u (p_amount p)"
    by (simp add: denominator_def e p')
  have le: "log_previous_loan lg db' u = log_previous_loan lg db u"
  proof (cases "previous_loan db u")
    case None
    with pl show ?thesis by (simp add: log_previous_loan_def)
  next
    case (Some l)
    with pl obtain l' where "previous_loan db' u = Some l'" "l_amount l' = l_amount l"
      by (cases "previous_loan db' u") auto
    with Some show ?thesis by (simp add: log_previous_loan_def)
  qed
  from n1 have f: "0 < log_previous_loan lg db u * log_balance lg u"
    "0 < total_month_no_loan db u"
    by (simp_all add: numerator_pos_iff)
  have lt: "numerator lg db u < numerator lg db' u"
    unfolding numerator_def le
    using f(1) m by (intro mult_strict_left_mono) simp_all
  with n1 have n2: "0 < numerator lg db' u" by simp
  have "compute_user_score lg db' u =
          Some (numerator lg db' u / denominator lg db' u (p_amount p'))
        \<and> 0 < numerator lg db' u / denominator lg db' u (p_amount p')"
    using p p' n2 e by (subst score_pos_iff) simp
  moreover have "s1 < numerator lg db' u / denominator lg db' u (p_amount p')"
    unfolding s1 de using lt d by (simp add: divide_strict_right_mono)
  ultimately show ?thesis by blast
qed

text \<open>With the real logarithm the condition on the logarithms follows from the
  amounts: a positive score has a positive balance and a positive request.\<close>

lemma score_monotone_ln:
  "compute_user_score ln db (u\<lparr>balance := b1\<rparr>) = Some s1 \<Longrightarrow> 0 < s1 \<Longrightarrow> b1 < b2
     \<Longrightarrow> \<exists>s2. compute_user_score ln db (u\<lparr>balance := b2\<rparr>) = Some s2 \<and> s1 < s2"
  "compute_user_score ln db (u\<lparr>loan_request_amount := r1\<rparr>) = Some s1 \<Longrightarrow> 0 < s1 \<Longrightarrow> r1 < r2
     \<Longrightarrow> \<exists>s2. compute_user_score ln db (u\<lparr>loan_request_amount := r2\<rparr>) = Some s2
            \<and> 0 < s2 \<and> s2 < s1"
proof -
  assume a: "compute_user_score ln db (u\<lparr>balance := b1\<rparr>) = Some s1" "0 < s1" "b1 < b2"
  then have "0 < numerator ln db (u\<lparr>balance := b1\<rparr>)"
    using score_pos_iff [of ln db "u\<lparr>balance := b1\<rparr>" s1] by blast
  then have "0 < log_balance ln (u\<lparr>balance := b1\<rparr>)"
    by (simp only: numerator_pos_iff)
  then have "0 < b1"
    by (simp add: log_balance_def split: if_splits)
  with a(3) have "ln b1 < ln b2" by simp
  with a show "\<exists>s2. compute_user_score ln db (u\<lparr>balance := b2\<rparr>) = Some s2 \<and> s1 < s2"
    by (intro score_balance_increases)
next
  assume a: "compute_user_score ln db (u\<lparr>loan_request_amount := r1\<rparr>) = Some s1" "0 < s1"
    "r1 < r2"
  then have "0 < loan_request_amount (u\<lparr>loan_request_amount := r1\<rparr>)"
    using score_pos_iff [of ln db "u\<lparr>loan_request_amount := r1\<rparr>" s1] by blast
  then have "0 < r1" by simp
  with a(3) have "ln r1 < ln r2" by simp
  with a show "\<exists>s2. compute_user_score ln db (u\<lparr>loan_request_amount := r2\<rparr>) = Some s2
            \<and> 0 < s2 \<and> s2 < s1"
    by (intro score_request_decreases)
qed

text \<open>
  C7, as amended. For a member whose score is finite and positive, everything else
  fixed: a larger balance whose logarithm, as computed, is larger gives a larger
  score; a larger requested amount whose logarithm, as computed, is larger gives a
  smaller score, still finite and positive; and more months paid without a loan
  payment (the latest payment's amount, the loan payments, the active loans and the
  latest active loan's amount being the same) give a larger score. With the real
  logarithm the condition on the logarithms follows from the amounts.
\<close>

theorem score_monotone:
  "(compute_user_score lg db (u\<lparr>balance := b1\<rparr>) = Some s1 \<and> 0 < s1
      \<and> b1 < b2 \<and> lg b1 < lg b2
    \<longrightarrow> (\<exists>s2. compute_user_score lg db (u\<lparr>balance := b2\<rparr>) = Some s2 \<and> s1 < s2))
   \<and> (compute_user_score lg db (u\<lparr>loan_request_amount := r1\<rparr>) = Some s1 \<and> 0 < s1
      \<and> r1 < r2 \<and> lg r1 < lg r2
    \<longrightarrow> (\<exists>s2. compute_user_score lg db (u\<lparr>loan_request_amount := r2\<rparr>) = Some s2
            \<and> 0 < s2 \<and> s2 < s1))
   \<and> (compute_user_score lg db u = Some s1 \<and> 0 < s1
      \<and> map_option p_amount (last_payment db' u) = map_option p_amount (last_payment db u)
      \<and> total_user_loan_payments db' u = total_user_loan_payments db u
      \<and> total_loan_amount db' u = total_loan_amount db u
      \<and> total_loan_user_get db' u = total_loan_user_get db u
      \<and> map_option l_amount (previous_loan db' u) = map_option l_amount (previous_loan db u)
      \<and> total_month_no_loan db u < total_month_no_loan db' u
    \<longrightarrow> (\<exists>s2. compute_user_score lg db' u = Some s2 \<and> s1 < s2))"
  using score_balance_increases [where lg = lg and db = db and u = u and ?b1.0 = b1
        and ?s1.0 = s1 and ?b2.0 = b2]
    score_request_decreases [where lg = lg and db = db and u = u and ?r1.0 = r1
        and ?s1.0 = s1 and ?r2.0 = r2]
    score_months_increase [where lg = lg and db = db and u = u and ?s1.0 = s1 and db' = db']
  by (intro conjI impI) (elim conjE, assumption)+

lemma full_score:
  "1 < b \<Longrightarrow> 1 < r \<Longrightarrow>
   compute_user_score ln db_full (full_member\<lparr>balance := b, loan_request_amount := r\<rparr>)
     = Some (ln b / (20 * ln r))"
  by (simp add: score_defs query_defs db_full_def full_member_def mult_le_0_iff)

lemma full_member_fields:
  "full_member\<lparr>balance := 500\<rparr> = full_member"
  "full_member\<lparr>loan_request_amount := 100\<rparr> = full_member"
  "full_member\<lparr>balance := b\<rparr> = full_member\<lparr>balance := b, loan_request_amount := 100\<rparr>"
  "full_member\<lparr>loan_request_amount := r\<rparr> = full_member\<lparr>balance := 500, loan_request_amount := r\<rparr>"
  by (simp_all add: full_member_def)

lemma full_more_score:
  "compute_user_score ln db_full_more full_member = Some (2 * ln 500 / (20 * ln 100))"
  by (simp add: score_defs query_defs db_full_more_def db_full_def full_member_def mult_le_0_iff)

lemma full_more_queries:
  "map_option p_amount (last_payment db_full_more full_member)
     = map_option p_amount (last_payment db_full full_member)"
  "total_user_loan_payments db_full_more full_member = total_user_loan_payments db_full full_member"
  "total_loan_amount db_full_more full_member = total_loan_amount db_full full_member"
  "total_loan_user_get db_full_more full_member = total_loan_user_get db_full full_member"
  "map_option l_amount (previous_loan db_full_more full_member)
     = map_option l_amount (previous_loan db_full full_member)"
  "total_month_no_loan db_full full_member = 1"
  "total_month_no_loan db_full_more full_member = 2"
  by (simp_all add: query_defs db_full_more_def db_full_def full_member_def)

text \<open>The theorem at the member of the tests, with the real logarithm: balance 500 to
  1000, request 100 to 200, and one more paid month.\<close>

theorem score_monotone_witness:
  "(\<exists>s1 s2. compute_user_score ln db_full (full_member\<lparr>balance := 500\<rparr>) = Some s1 \<and> 0 < s1
       \<and> compute_user_score ln db_full (full_member\<lparr>balance := 1000\<rparr>) = Some s2 \<and> s1 < s2)
   \<and> (\<exists>s1 s2. compute_user_score ln db_full (full_member\<lparr>loan_request_amount := 100\<rparr>) = Some s1
       \<and> 0 < s1
       \<and> compute_user_score ln db_full (full_member\<lparr>loan_request_amount := 200\<rparr>) = Some s2
       \<and> s2 < s1)
   \<and> (\<exists>s1 s2. compute_user_score ln db_full full_member = Some s1 \<and> 0 < s1
       \<and> total_month_no_loan db_full full_member < total_month_no_loan db_full_more full_member
       \<and> compute_user_score ln db_full_more full_member = Some s2 \<and> s1 < s2)"
proof -
  let ?s = "ln 500 / (20 * ln 100) :: real"
  have v: "compute_user_score ln db_full full_member = Some ?s"
    using full_score [of 500 100] by (simp add: full_member_def)
  have pos: "0 < ?s" by simp
  note t = score_monotone [where lg = ln and db = db_full and u = full_member and ?b1.0 = 500
      and ?s1.0 = ?s and ?b2.0 = 1000 and ?r1.0 = 100 and ?r2.0 = 200 and db' = db_full_more]
  have "\<exists>s2. compute_user_score ln db_full (full_member\<lparr>balance := 1000\<rparr>) = Some s2 \<and> ?s < s2"
    using t v pos by (simp add: full_member_fields(1))
  then have 1: "\<exists>s1 s2. compute_user_score ln db_full (full_member\<lparr>balance := 500\<rparr>) = Some s1
       \<and> 0 < s1
       \<and> compute_user_score ln db_full (full_member\<lparr>balance := 1000\<rparr>) = Some s2 \<and> s1 < s2"
    using v pos unfolding full_member_fields(1) by blast
  have "\<exists>s2. compute_user_score ln db_full (full_member\<lparr>loan_request_amount := 200\<rparr>) = Some s2
          \<and> 0 < s2 \<and> s2 < ?s"
    using t v pos by (simp add: full_member_fields(2))
  then have 2: "\<exists>s1 s2. compute_user_score ln db_full (full_member\<lparr>loan_request_amount := 100\<rparr>) = Some s1
       \<and> 0 < s1
       \<and> compute_user_score ln db_full (full_member\<lparr>loan_request_amount := 200\<rparr>) = Some s2
       \<and> s2 < s1"
    using v pos unfolding full_member_fields(2) by blast
  have m: "total_month_no_loan db_full full_member < total_month_no_loan db_full_more full_member"
    by (simp add: full_more_queries)
  have "\<exists>s2. compute_user_score ln db_full_more full_member = Some s2 \<and> ?s < s2"
    using t v pos m full_more_queries(1-5) by simp
  then have 3: "\<exists>s1 s2. compute_user_score ln db_full full_member = Some s1 \<and> 0 < s1
       \<and> total_month_no_loan db_full full_member < total_month_no_loan db_full_more full_member
       \<and> compute_user_score ln db_full_more full_member = Some s2 \<and> s1 < s2"
    using v pos m by blast
  from 1 2 3 show ?thesis by (intro conjI)
qed

text \<open>The conversion at the amounts of the examples: a number inside a binade whose
  scaled value is within a half of an integer converts to that integer, scaled back.\<close>

lemma round_half_even_near:
  assumes "\<bar>y - of_int n\<bar> < 1 / 2"
  shows "round_half_even y = n"
proof (cases "of_int n \<le> y")
  case True
  with assms have "\<lfloor>y\<rfloor> = n" by (intro floor_unique) auto
  with assms True show ?thesis by (simp add: round_half_even_def)
next
  case False
  with assms have f: "\<lfloor>y\<rfloor> = n - 1" by (intro floor_unique) auto
  from assms False have "1 / 2 < y - of_int (n - 1)" by auto
  with f show ?thesis by (simp add: round_half_even_def)
qed

lemma float_of_eq:
  fixes x :: real and k :: nat
  assumes "2 ^ k \<le> x" "x < 2 ^ (k + 1)" "k \<le> 52"
    and "\<bar>x * 2 ^ (52 - k) - of_int n\<bar> < 1 / 2"
  shows "float_of x = of_int n / 2 ^ (52 - k)"
proof -
  have x: "0 < x" using assms(1) by (rule less_le_trans [rotated]) simp
  have "\<lfloor>log 2 x\<rfloor> = int k"
    using x assms(1,2) by (subst floor_log_eq_powr_iff) (simp_all add: powr_realpow powr_add)
  then have e: "\<lfloor>log 2 x\<rfloor> - 52 = - int (52 - k)"
    using assms(3) by simp
  have p: "pow2 (- int (52 - k)) = 1 / 2 ^ (52 - k)"
    by (simp add: pow2_def) arith
  have r: "round_half_even (x / pow2 (- int (52 - k))) = n"
    using assms(4) by (intro round_half_even_near) (simp add: p)
  have "float_of x
      = of_int (round_half_even (x / pow2 (\<lfloor>log 2 x\<rfloor> - 52))) * pow2 (\<lfloor>log 2 x\<rfloor> - 52)"
    using x by (simp add: float_of_def Let_def)
  also have "\<dots> = of_int n * pow2 (- int (52 - k))"
    by (simp only: e r)
  also have "\<dots> = of_int n / 2 ^ (52 - k)"
    by (simp only: p) simp
  finally show ?thesis .
qed

lemma float_of_100: "float_of 100 = 100"
  using float_of_eq [of 6 100 "100 * 2 ^ 46"] by simp

lemma float_of_big:
  "float_of amount_a = 900000000000"
  "float_of amount_b = 900000000000"
  using float_of_eq [of 39 "900000000000 + 1 / 10 ^ 8" "900000000000 * 2 ^ 13"]
    float_of_eq [of 39 "900000000000 + 2 / 10 ^ 8" "900000000000 * 2 ^ 13"]
  by (simp_all add: amount_a_def amount_b_def)


lemma float_of_small: "float_of 200 = 200" "float_of 500 = 500"
  using float_of_eq [of 7 200 "200 * 2 ^ 45"] float_of_eq [of 8 500 "500 * 2 ^ 44"]
  by simp_all

lemma full_score_float:
  "0 < b \<Longrightarrow> 0 < r \<Longrightarrow> 1 < float_of b \<Longrightarrow> 1 < float_of r \<Longrightarrow>
   compute_user_score float_log db_full (full_member\<lparr>balance := b, loan_request_amount := r\<rparr>)
     = Some (ln (float_of b) / (20 * ln (float_of r)))"
  by (simp add: score_defs query_defs db_full_def full_member_def float_log_def float_of_small
      mult_le_0_iff)

text \<open>
  The claim as first stated fails twice. At the finite score 0: with the balance 0
  and with the balance 1 the score is 0, and with the balance 1 it stays 0 when the
  request grows from 100 to 200 and when one more month is paid. At a finite
  positive score, with the logarithm taken after the conversion to floating point
  as the source takes it: the amounts 900000000000.00000001 and
  900000000000.00000002 convert to the same number 900000000000, so the score is
  the same positive number for both as balance, and for both as request.
\<close>

theorem score_monotone_counterexample:
  "compute_user_score ln db_full (full_member\<lparr>balance := 0\<rparr>) = Some 0
   \<and> compute_user_score ln db_full (full_member\<lparr>balance := 1\<rparr>) = Some 0
   \<and> compute_user_score ln db_full (full_member\<lparr>balance := 1, loan_request_amount := 100\<rparr>) = Some 0
   \<and> compute_user_score ln db_full (full_member\<lparr>balance := 1, loan_request_amount := 200\<rparr>) = Some 0
   \<and> total_month_no_loan db_full (full_member\<lparr>balance := 1\<rparr>)
       < total_month_no_loan db_full_more (full_member\<lparr>balance := 1\<rparr>)
   \<and> compute_user_score ln db_full_more (full_member\<lparr>balance := 1\<rparr>) = Some 0
   \<and> amount_a < amount_b
   \<and> float_of amount_a = 900000000000
   \<and> float_of amount_b = 900000000000
   \<and> compute_user_score float_log db_full (full_member\<lparr>balance := amount_a\<rparr>)
       = Some (ln 900000000000 / (20 * ln 100))
   \<and> compute_user_score float_log db_full (full_member\<lparr>balance := amount_b\<rparr>)
       = Some (ln 900000000000 / (20 * ln 100))
   \<and> 0 < ln (900000000000 :: real) / (20 * ln 100)
   \<and> compute_user_score float_log db_full (full_member\<lparr>loan_request_amount := amount_a\<rparr>)
       = Some (ln 500 / (20 * ln 900000000000))
   \<and> compute_user_score float_log db_full (full_member\<lparr>loan_request_amount := amount_b\<rparr>)
       = Some (ln 500 / (20 * ln 900000000000))
   \<and> 0 < ln (500 :: real) / (20 * ln 900000000000)"
proof -
  have z: "compute_user_score ln db_full (full_member\<lparr>balance := 0\<rparr>) = Some 0
   \<and> compute_user_score ln db_full (full_member\<lparr>balance := 1\<rparr>) = Some 0
   \<and> compute_user_score ln db_full (full_member\<lparr>balance := 1, loan_request_amount := 100\<rparr>) = Some 0
   \<and> compute_user_score ln db_full (full_member\<lparr>balance := 1, loan_request_amount := 200\<rparr>) = Some 0
   \<and> total_month_no_loan db_full (full_member\<lparr>balance := 1\<rparr>)
       < total_month_no_loan db_full_more (full_member\<lparr>balance := 1\<rparr>)
   \<and> compute_user_score ln db_full_more (full_member\<lparr>balance := 1\<rparr>) = Some 0"
    by (simp add: score_defs query_defs db_full_more_def db_full_def full_member_def mult_le_0_iff)
  have eb: "full_member\<lparr>balance := x, loan_request_amount := 100\<rparr> = full_member\<lparr>balance := x\<rparr>"
    and er: "full_member\<lparr>balance := 500, loan_request_amount := x\<rparr>
        = full_member\<lparr>loan_request_amount := x\<rparr>" for x
    by (simp_all add: full_member_def)
  have pos: "0 < amount_a" "0 < amount_b" "amount_a < amount_b"
    by (simp_all add: amount_a_def amount_b_def)
  have b: "compute_user_score float_log db_full (full_member\<lparr>balance := amount_a\<rparr>)
       = Some (ln 900000000000 / (20 * ln 100))"
    "compute_user_score float_log db_full (full_member\<lparr>balance := amount_b\<rparr>)
       = Some (ln 900000000000 / (20 * ln 100))"
    using full_score_float [of amount_a 100] full_score_float [of amount_b 100] pos
    by (simp_all add: eb float_of_big float_of_100)
  have r: "compute_user_score float_log db_full (full_member\<lparr>loan_request_amount := amount_a\<rparr>)
       = Some (ln 500 / (20 * ln 900000000000))"
    "compute_user_score float_log db_full (full_member\<lparr>loan_request_amount := amount_b\<rparr>)
       = Some (ln 500 / (20 * ln 900000000000))"
    using full_score_float [of 500 amount_a] full_score_float [of 500 amount_b] pos
    by (simp_all add: er float_of_big float_of_small)
  have p: "0 < ln (900000000000 :: real) / (20 * ln 100)"
    "0 < ln (500 :: real) / (20 * ln 900000000000)"
    by simp_all
  from z b r p pos(3) float_of_big show ?thesis
    by (intro conjI) simp_all
qed

section \<open>The stored loan\<close>

text \<open>
  C8. A run that succeeds appends exactly the loan it returns; its state is ACTIVE
  or \<open>NO_ONE\<close>, never INITIAL; its amount and its member are set exactly when it is
  ACTIVE, and so is the field \<open>selected\<close> of its log. A run that fails stores no
  loan.
\<close>

theorem stored_loan_terminal:
  "(run_loan_assignment lg env db y m = (db', Inr loan) \<longrightarrow>
       loans db' = loans db @ [loan]
     \<and> (l_state loan = ACTIVE \<or> l_state loan = NO_ONE)
     \<and> l_state loan \<noteq> INITIAL
     \<and> (l_amount loan \<noteq> None \<longleftrightarrow> l_state loan = ACTIVE)
     \<and> (l_user_id loan \<noteq> None \<longleftrightarrow> l_state loan = ACTIVE)
     \<and> (\<exists>doc. l_log loan = Some doc \<and> (json_selected doc \<noteq> None \<longleftrightarrow> l_state loan = ACTIVE)))
   \<and> (run_loan_assignment lg env db y m = (db', Inl e) \<longrightarrow> loans db' = loans db)"
proof (intro conjI impI)
  assume a: "run_loan_assignment lg env db y m = (db', Inr loan)"
  note s = run_success [OF a]
  from s show "loans db' = loans db @ [loan]" by simp
  from s show "l_state loan = ACTIVE \<or> l_state loan = NO_ONE" by blast
  from s show "l_state loan \<noteq> INITIAL" by auto
  from s show "l_amount loan \<noteq> None \<longleftrightarrow> l_state loan = ACTIVE" by auto
  from s show "l_user_id loan \<noteq> None \<longleftrightarrow> l_state loan = ACTIVE" by auto
  from s show "\<exists>doc. l_log loan = Some doc \<and> (json_selected doc \<noteq> None \<longleftrightarrow> l_state loan = ACTIVE)"
    by auto
next
  assume "run_loan_assignment lg env db y m = (db', Inl e)"
  then show "loans db' = loans db" by (rule run_loans_unchanged_on_error)
qed

text \<open>The theorem at the two members without history: the successful run for 1403/1
  and the failing run for 1403/2.\<close>

theorem stored_loan_terminal_witness:
  "run_loan_assignment ln env_one db_two 1403 1 = (db_two\<lparr>loans := [loan_two]\<rparr>, Inr loan_two)
   \<and> loans (db_two\<lparr>loans := [loan_two]\<rparr>) = loans db_two @ [loan_two]
   \<and> l_state loan_two = ACTIVE \<and> l_amount loan_two \<noteq> None \<and> l_user_id loan_two \<noteq> None
   \<and> (\<exists>doc. l_log loan_two = Some doc \<and> json_selected doc \<noteq> None)
   \<and> run_loan_assignment ln env_one db_two 1403 2 =
       (db_two, Inl (ValueError_unpaid 1403 2 [''unlimited1'', ''unlimited2'']))"
proof -
  note r = two_run [of ln]
  note e = two_run_unpaid [of ln env_one]
  have s: "l_state loan_two = ACTIVE" by (simp add: loan_two_def)
  from stored_loan_terminal [of ln env_one db_two 1403 1 "db_two\<lparr>loans := [loan_two]\<rparr>" loan_two] r s
  have "loans (db_two\<lparr>loans := [loan_two]\<rparr>) = loans db_two @ [loan_two]"
    and "l_amount loan_two \<noteq> None" and "l_user_id loan_two \<noteq> None"
    and "\<exists>doc. l_log loan_two = Some doc \<and> json_selected doc \<noteq> None"
    by simp_all
  with r s e show ?thesis by (intro conjI)
qed

section \<open>The score as a quotient\<close>






section \<open>No active member\<close>

text \<open>
  C10. Without any active member the run never raises the error of the payment
  check: when the period has no loan yet it stores a \<open>NO_ONE\<close> loan for the period
  with empty lists, no selected member and an empty pool; when the period already
  has a loan the insert fails.
\<close>

theorem no_active_members:
  "\<not> (\<exists>u \<in> set (users db). is_active u) \<longrightarrow>
     (\<forall>ns. snd (run_loan_assignment lg env db y m) \<noteq> Inl (ValueError_unpaid y m ns))
   \<and> (period_taken db y m \<longrightarrow>
         run_loan_assignment lg env db y m =
           (db\<lparr>config := Some (the_config db)\<rparr>, Inl IntegrityError))
   \<and> (\<not> period_taken db y m \<longrightarrow>
        (\<exists>loan.
           run_loan_assignment lg env db y m =
             (db\<lparr>config := Some (the_config db), loans := loans db @ [loan]\<rparr>, Inr loan)
         \<and> l_state loan = NO_ONE \<and> l_user_id loan = None \<and> l_amount loan = None
         \<and> l_jalali_year loan = y \<and> l_jalali_month loan = m
         \<and> l_log loan = Some
              \<lparr>json_not_participated = [], json_participated = [], json_selected = None,
               json_random_pool = [], json_note = None\<rparr>))"
proof (intro impI)
  assume "\<not> (\<exists>u \<in> set (users db). is_active u)"
  then have au: "all_users db = []" by (auto simp: all_users_def filter_empty_conv)
  then have u: "unpaid_users db y m = []" by (simp add: unpaid_users_def)
  from au have el: "snd (eligibility db) = []" by (simp add: eligibility_closed)
  note r = run_no_eligible [OF u el, of lg env, unfolded au]
  show "(\<forall>ns. snd (run_loan_assignment lg env db y m) \<noteq> Inl (ValueError_unpaid y m ns))
   \<and> (period_taken db y m \<longrightarrow>
         run_loan_assignment lg env db y m =
           (db\<lparr>config := Some (the_config db)\<rparr>, Inl IntegrityError))
   \<and> (\<not> period_taken db y m \<longrightarrow>
        (\<exists>loan.
           run_loan_assignment lg env db y m =
             (db\<lparr>config := Some (the_config db), loans := loans db @ [loan]\<rparr>, Inr loan)
         \<and> l_state loan = NO_ONE \<and> l_user_id loan = None \<and> l_amount loan = None
         \<and> l_jalali_year loan = y \<and> l_jalali_month loan = m
         \<and> l_log loan = Some
              \<lparr>json_not_participated = [], json_participated = [], json_selected = None,
               json_random_pool = [], json_note = None\<rparr>))"
    unfolding r by (simp add: Loan_objects_create_def no_one_fields_def Let_def)
qed

text \<open>The theorem at the fund whose only member is inactive.\<close>

theorem no_active_members_witness:
  "\<not> (\<exists>u \<in> set (users db_inactive). is_active u) \<and> \<not> period_taken db_inactive 1403 1
   \<and> (\<exists>loan. run_loan_assignment ln env_one db_inactive 1403 1 =
                 (db_inactive\<lparr>loans := [loan]\<rparr>, Inr loan)
        \<and> l_state loan = NO_ONE \<and> l_jalali_year loan = 1403 \<and> l_jalali_month loan = 1
        \<and> l_log loan = Some
             \<lparr>json_not_participated = [], json_participated = [], json_selected = None,
              json_random_pool = [], json_note = None\<rparr>)"
proof -
  have a: "\<not> (\<exists>u \<in> set (users db_inactive). is_active u)" by (simp add: db_inactive_def)
  have p: "\<not> period_taken db_inactive 1403 1" "loans db_inactive = []"
    by (simp_all add: period_taken_def db_inactive_def)
  have c: "db_inactive\<lparr>config := Some (the_config db_inactive)\<rparr> = db_inactive"
    by (rule config_fixpoint [of _ default_Config]) (simp add: db_inactive_def)
  have "\<exists>loan.
           run_loan_assignment ln env_one db_inactive 1403 1 =
             (db_inactive\<lparr>config := Some (the_config db_inactive),
                          loans := loans db_inactive @ [loan]\<rparr>, Inr loan)
         \<and> l_state loan = NO_ONE \<and> l_user_id loan = None \<and> l_amount loan = None
         \<and> l_jalali_year loan = 1403 \<and> l_jalali_month loan = 1
         \<and> l_log loan = Some
              \<lparr>json_not_participated = [], json_participated = [], json_selected = None,
               json_random_pool = [], json_note = None\<rparr>"
    using no_active_members [of db_inactive ln env_one 1403 1] a p(1) by simp
  then obtain loan where
    l: "run_loan_assignment ln env_one db_inactive 1403 1 =
             (db_inactive\<lparr>config := Some (the_config db_inactive),
                          loans := loans db_inactive @ [loan]\<rparr>, Inr loan)"
    "l_state loan = NO_ONE" "l_jalali_year loan = 1403" "l_jalali_month loan = 1"
    "l_log loan = Some
              \<lparr>json_not_participated = [], json_participated = [], json_selected = None,
               json_random_pool = [], json_note = None\<rparr>"
    by (elim exE conjE)
  show ?thesis
    using a p(1) l by (intro conjI exI [of _ loan]) (simp_all add: c p)
qed

end
